theory Spec2Isabelle
  imports Complex_Main
begin

section \<open>Python values shared by both source files\<close>

text \<open>
  Exceptions are values. \<open>KeyboardInterrupt\<close> and \<open>SystemExit\<close> derive from
  \<open>BaseException\<close> only; every other constructor stands for a class derived from
  \<open>Exception\<close>. A bare \<open>except:\<close> catches all of them, \<open>except Exception:\<close>
  only those for which \<open>is_Exception\<close> holds.
\<close>

datatype py_exception =
    KeyboardInterrupt
  | SystemExit int
  | ValueError
  | RuntimeError
  | TypeError
  | KeyError
  | NameError
  | UnboundLocalError
  | AttributeError
  | ZeroDivisionError
  | IndexError
  | OtherError string

fun is_Exception :: "py_exception \<Rightarrow> bool" where
  "is_Exception KeyboardInterrupt = False"
| "is_Exception (SystemExit n) = False"
| "is_Exception e = True"

text \<open>
  A Python float as far as the control flow reads it: a finite value, an infinity or
  NaN. Every comparison with NaN is false.
\<close>

datatype pyfloat = Fin real | PInf | NInf | NaN

fun float_lt :: "pyfloat \<Rightarrow> pyfloat \<Rightarrow> bool" where
  "float_lt NaN y = False"
| "float_lt x NaN = False"
| "float_lt (Fin a) (Fin b) = (a < b)"
| "float_lt (Fin a) PInf = True"
| "float_lt (Fin a) NInf = False"
| "float_lt PInf y = False"
| "float_lt NInf NInf = False"
| "float_lt NInf y = True"

fun is_finite :: "pyfloat \<Rightarrow> bool" where
  "is_finite (Fin a) = True"
| "is_finite x = False"

subsection \<open>Statements that may raise, over a mutable state\<close>

text \<open>
  A statement takes the state and returns the state it leaves behind together with its
  value (\<open>Inr\<close>) or the exception it raised (\<open>Inl\<close>). What a statement changed before
  it raised stays changed, as in Python.
\<close>

type_synonym ('s, 'a) m = "'s \<Rightarrow> (py_exception + 'a) \<times> 's"

definition retM :: "'a \<Rightarrow> ('s, 'a) m" where
  "retM x = (\<lambda>s. (Inr x, s))"

definition raiseM :: "py_exception \<Rightarrow> ('s, 'a) m" where
  "raiseM e = (\<lambda>s. (Inl e, s))"

definition bindM :: "('s, 'a) m \<Rightarrow> ('a \<Rightarrow> ('s, 'b) m) \<Rightarrow> ('s, 'b) m" where
  "bindM f g = (\<lambda>s. case f s of (Inl e, s') \<Rightarrow> (Inl e, s') | (Inr x, s') \<Rightarrow> g x s')"

definition thenM :: "('s, 'a) m \<Rightarrow> ('s, 'b) m \<Rightarrow> ('s, 'b) m" where
  "thenM f g = bindM f (\<lambda>_. g)"

text \<open>\<open>try: body except: handler\<close> with a bare \<open>except\<close>.\<close>

definition tryM :: "('s, 'a) m \<Rightarrow> ('s, 'a) m \<Rightarrow> ('s, 'a) m" where
  "tryM body handler = (\<lambda>s. case body s of (Inl e, s') \<Rightarrow> handler s' | (Inr x, s') \<Rightarrow> (Inr x, s'))"

definition whenM :: "bool \<Rightarrow> ('s, unit) m \<Rightarrow> ('s, unit) m" where
  "whenM b f = (if b then f else retM ())"

fun forM :: "('a \<Rightarrow> ('s, unit) m) \<Rightarrow> 'a list \<Rightarrow> ('s, unit) m" where
  "forM f [] = retM ()"
| "forM f (x # xs) = thenM (f x) (forM f xs)"

text \<open>\<open>enumerate(xs)\<close>.\<close>

definition enumerate_from0 :: "'a list \<Rightarrow> (nat \<times> 'a) list" where
  "enumerate_from0 xs = zip [0 ..< length xs] xs"

text \<open>\<open>max(xs, key=k)\<close>: the first element with the greatest key, \<open>ValueError\<close> on an
  empty list.\<close>

fun py_max_key :: "('a \<Rightarrow> 'k::linorder) \<Rightarrow> 'a list \<Rightarrow> py_exception + 'a" where
  "py_max_key k [] = Inl ValueError"
| "py_max_key k (x # xs) = Inr (foldl (\<lambda>best y. if k best < k y then y else best) x xs)"

text \<open>\<open>os.path.join(a, b)\<close> for a relative \<open>b\<close>.\<close>

definition os_path_join :: "string \<Rightarrow> string \<Rightarrow> string" where
  "os_path_join a b = (if a = [] then b else if last a = CHR ''/'' then a @ b else a @ ''/'' @ b)"


section \<open>models/tacotron.py\<close>

subsection \<open>Tensors, modules and the parameter store\<close>

text \<open>
  A tensor is a nested list of numbers. \<open>torch.flip(x, dims=(1,))\<close> reverses the
  second axis, which needs at least two axes. The layers of \<open>TTS.layers\<close> and the
  shape operations of torch are not in the source files; they are the fields of
  \<open>layers\<close>, functions of the values of a module's parameters and of its inputs.
\<close>

datatype tensor = Num real | Tensor "tensor list"

fun is_Tensor :: "tensor \<Rightarrow> bool" where
  "is_Tensor (Tensor xs) = True"
| "is_Tensor (Num r) = False"

fun rev_axis0 :: "tensor \<Rightarrow> tensor" where
  "rev_axis0 (Tensor xs) = Tensor (rev xs)"
| "rev_axis0 (Num r) = Num r"

fun flip_dim1 :: "tensor \<Rightarrow> py_exception + tensor" where
  "flip_dim1 (Num r) = Inl IndexError"
| "flip_dim1 (Tensor items) =
     (if list_all is_Tensor items then Inr (Tensor (map rev_axis0 items)) else Inl IndexError)"

type_synonym addr = nat

text \<open>
  An \<open>nn.Module\<close> object: its identity and the store cells of its trainable
  parameters. Two modules alias a parameter when they name the same cell.
\<close>

record module =
  oid :: addr
  params :: "addr list"

record heap =
  cells :: "addr \<Rightarrow> tensor option"
  free :: addr

definition read_cell :: "'a heap_scheme \<Rightarrow> addr \<Rightarrow> tensor" where
  "read_cell h a = (case cells h a of Some t \<Rightarrow> t | None \<Rightarrow> Num 0)"

definition param_values :: "'a heap_scheme \<Rightarrow> module \<Rightarrow> tensor list" where
  "param_values h md = map (read_cell h) (params md)"

text \<open>Constructing a module allocates one fresh cell per parameter.\<close>

definition new_module :: "tensor list \<Rightarrow> heap \<Rightarrow> module \<times> heap" where
  "new_module ws h =
     (let n = free h in
      (\<lparr>oid = n, params = map (\<lambda>i. n + 1 + i) [0 ..< length ws]\<rparr>,
       h\<lparr>cells := (\<lambda>a. if n < a \<and> a \<le> n + length ws then Some (ws ! (a - n - 1)) else cells h a),
         free := n + 1 + length ws\<rparr>))"

text \<open>\<open>copy.deepcopy(module)\<close>: a new object whose parameters are new cells holding
  copies of the values.\<close>

definition deepcopy :: "module \<Rightarrow> heap \<Rightarrow> module \<times> heap" where
  "deepcopy md h = new_module (param_values h md) h"

record layers =
  init_params :: "string \<Rightarrow> tensor list"
  embedding_f :: "tensor list \<Rightarrow> tensor option list \<Rightarrow> tensor"
  encoder_f :: "tensor list \<Rightarrow> tensor option list \<Rightarrow> tensor"
  decoder_f :: "tensor list \<Rightarrow> tensor option list \<Rightarrow> tensor \<times> tensor \<times> tensor"
  decoder_inference_f :: "tensor list \<Rightarrow> tensor option list \<Rightarrow> tensor \<times> tensor \<times> tensor"
  postnet_f :: "tensor list \<Rightarrow> tensor option list \<Rightarrow> tensor"
  last_linear_f :: "tensor list \<Rightarrow> tensor option list \<Rightarrow> tensor"
  speaker_project_mel_f :: "tensor list \<Rightarrow> tensor option list \<Rightarrow> tensor"
  gst_layer_f :: "tensor list \<Rightarrow> tensor option list \<Rightarrow> tensor"
  sequence_mask :: "tensor \<Rightarrow> tensor"
  transpose_f :: "nat \<Rightarrow> nat \<Rightarrow> tensor \<Rightarrow> tensor"
  squeeze_f :: "nat \<Rightarrow> tensor \<Rightarrow> tensor"
  expand_as_rows :: "tensor \<Rightarrow> tensor \<Rightarrow> tensor"
  cat_last :: "tensor \<Rightarrow> tensor \<Rightarrow> tensor"

subsection \<open>class Tacotron\<close>

record tacotron =
  gst :: bool
  num_speakers :: int
  bidirectional_decoder :: bool
  embedding :: module
  encoder :: module
  decoder :: module
  decoder_backward :: "module option"
  postnet :: module
  last_linear :: module
  speaker_project_mel :: "module option"
  gst_layer :: "module option"
  speaker_embeddings :: "tensor option"
  speaker_embeddings_projected :: "tensor option"

text \<open>
  The state a method runs in: the store, the object \<open>self\<close>, and \<open>ran\<close>, the log of the
  submodule calls made so far (the identity of the module called and its inputs, \<open>None\<close>
  for a Python \<open>None\<close>).
\<close>

record tac_state = heap +
  self :: tacotron
  ran :: "(addr \<times> tensor option list) list"

text \<open>A submodule that the constructor creates only under a condition.\<close>

definition optional_module :: "bool \<Rightarrow> (heap \<Rightarrow> module \<times> heap) \<Rightarrow> heap \<Rightarrow> module option \<times> heap" where
  "optional_module b mk h = (if b then (let (md, h') = mk h in (Some md, h')) else (None, h))"

text \<open>\<open>Tacotron.__init__\<close>, the submodules in the order the constructor creates them.\<close>

definition Tacotron_init :: "layers \<Rightarrow> int \<Rightarrow> bool \<Rightarrow> bool \<Rightarrow> heap \<Rightarrow> tacotron \<times> heap" where
  "Tacotron_init L n_speakers gst_flag bidirectional h0 =
     (let (emb, h1) = new_module (init_params L ''embedding'') h0;
          (enc, h2) = new_module (init_params L ''encoder'') h1;
          (dec, h3) = new_module (init_params L ''decoder'') h2;
          (dec_b, h4) = optional_module bidirectional (deepcopy dec) h3;
          (post, h5) = new_module (init_params L ''postnet'') h4;
          (lin, h6) = new_module (init_params L ''last_linear'') h5;
          (proj, h7) = optional_module (n_speakers > 1)
                         (new_module (init_params L ''speaker_project_mel'')) h6;
          (gl, h8) = optional_module gst_flag (new_module (init_params L ''gst_layer'')) h7
      in (\<lparr>gst = gst_flag, num_speakers = n_speakers, bidirectional_decoder = bidirectional,
           embedding = emb, encoder = enc, decoder = dec, decoder_backward = dec_b,
           postnet = post, last_linear = lin, speaker_project_mel = proj, gst_layer = gl,
           speaker_embeddings = None, speaker_embeddings_projected = None\<rparr>, h8))"

text \<open>Calling a submodule: its function applied to the current values of its parameters.\<close>

definition run :: "(tensor list \<Rightarrow> tensor option list \<Rightarrow> 'r) \<Rightarrow> module \<Rightarrow> tensor option list
    \<Rightarrow> (tac_state, 'r) m" where
  "run f md ins = (\<lambda>s. (Inr (f (param_values s md) ins), s\<lparr>ran := ran s @ [(oid md, ins)]\<rparr>))"

text \<open>Reading an attribute that the constructor may not have set.\<close>

definition attr :: "(tacotron \<Rightarrow> 'a option) \<Rightarrow> (tac_state, 'a) m" where
  "attr f = (\<lambda>s. case f (self s) of None \<Rightarrow> (Inl AttributeError, s) | Some x \<Rightarrow> (Inr x, s))"

definition init_states :: "(tac_state, unit) m" where
  "init_states = (\<lambda>s. (Inr (), s\<lparr>self := (self s)\<lparr>speaker_embeddings := None,
                                                  speaker_embeddings_projected := None\<rparr>\<rparr>))"

definition set_projected :: "tensor \<Rightarrow> (tac_state, unit) m" where
  "set_projected t = (\<lambda>s. (Inr (), s\<lparr>self := (self s)\<lparr>speaker_embeddings_projected := Some t\<rparr>\<rparr>))"

definition concat_speaker_embedding :: "layers \<Rightarrow> tensor \<Rightarrow> tensor \<Rightarrow> tensor" where
  "concat_speaker_embedding L outputs spk = cat_last L outputs (expand_as_rows L spk outputs)"

definition compute_gst :: "layers \<Rightarrow> tensor \<Rightarrow> tensor \<Rightarrow> (tac_state, tensor \<times> tensor) m" where
  "compute_gst L inputs mel_specs =
     bindM (attr gst_layer) (\<lambda>gl.
     bindM (run (gst_layer_f L) gl [Some mel_specs]) (\<lambda>gst_outputs.
     retM (concat_speaker_embedding L inputs gst_outputs, gst_outputs)))"

definition backward_inference :: "layers \<Rightarrow> tensor \<Rightarrow> tensor \<Rightarrow> tensor \<Rightarrow> (tac_state, tensor \<times> tensor) m" where
  "backward_inference L mel_specs encoder_outputs msk =
     bindM (attr decoder_backward) (\<lambda>db.
     bindM (\<lambda>s. (flip_dim1 mel_specs, s)) (\<lambda>flipped.
     bindM (\<lambda>s. run (decoder_f L) db
                   [Some encoder_outputs, Some flipped, Some msk,
                    speaker_embeddings_projected (self s)] s) (\<lambda>(decoder_outputs_b, alignments_b, _).
     retM (transpose_f L 1 2 decoder_outputs_b, alignments_b))))"

text \<open>The projection of the speaker embedding, shared by \<open>forward\<close> and \<open>inference\<close>:
  \<open>with_gst\<close> is the embedding of the style when the style branch ran.\<close>

definition project_speaker :: "layers \<Rightarrow> tensor option \<Rightarrow> tensor \<Rightarrow> (tac_state, unit) m" where
  "project_speaker L with_gst spk =
     bindM (attr speaker_project_mel) (\<lambda>pm.
       case with_gst of
         Some g \<Rightarrow>
           bindM (run (speaker_project_mel_f L) pm
                    [Some (concat_speaker_embedding L (transpose_f L 0 1 g) spk)]) (\<lambda>p.
           set_projected (squeeze_f L 1 (transpose_f L 0 1 p)))
       | None \<Rightarrow>
           bindM (run (speaker_project_mel_f L) pm [Some spk]) (\<lambda>p.
           set_projected (squeeze_f L 1 p)))"

definition forward :: "layers \<Rightarrow> tensor \<Rightarrow> tensor \<Rightarrow> tensor \<Rightarrow> tensor option
    \<Rightarrow> (tac_state, tensor list) m" where
  "forward L characters text_lengths mel_specs spk =
     thenM init_states (
     bindM (\<lambda>s. run (embedding_f L) (embedding (self s)) [Some characters] s) (\<lambda>inputs.
     bindM (\<lambda>s. run (encoder_f L) (encoder (self s)) [Some inputs] s) (\<lambda>enc0.
     bindM (\<lambda>s. if gst (self s)
                 then bindM (compute_gst L enc0 mel_specs) (\<lambda>(e, g). retM (e, Some g)) s
                 else retM (enc0, None) s) (\<lambda>(enc1, gts_embedding).
     bindM (case spk of
              None \<Rightarrow> retM enc1
            | Some sp \<Rightarrow>
                thenM (project_speaker L gts_embedding sp)
                  (retM (transpose_f L 0 1 (concat_speaker_embedding L (transpose_f L 0 1 enc1) sp))))
       (\<lambda>encoder_outputs.
     bindM (\<lambda>s. run (decoder_f L) (decoder (self s))
                   [Some encoder_outputs, Some mel_specs, Some (sequence_mask L text_lengths),
                    speaker_embeddings_projected (self s)] s)
       (\<lambda>(decoder_outputs, alignments, stop_tokens).
     bindM (\<lambda>s. run (postnet_f L) (postnet (self s)) [Some decoder_outputs] s) (\<lambda>post0.
     bindM (\<lambda>s. run (last_linear_f L) (last_linear (self s)) [Some post0] s) (\<lambda>postnet_outputs.
     (\<lambda>s. if bidirectional_decoder (self s)
           then bindM (backward_inference L mel_specs encoder_outputs (sequence_mask L text_lengths))
                  (\<lambda>(decoder_outputs_backward, alignments_backward).
                     retM [transpose_f L 1 2 decoder_outputs, postnet_outputs, alignments, stop_tokens,
                           decoder_outputs_backward, alignments_backward]) s
           else retM [transpose_f L 1 2 decoder_outputs, postnet_outputs, alignments, stop_tokens] s)
     ))))))))"

definition inference :: "layers \<Rightarrow> tensor \<Rightarrow> tensor option \<Rightarrow> tensor option
    \<Rightarrow> (tac_state, tensor list) m" where
  "inference L characters spk style_mel =
     bindM (\<lambda>s. run (embedding_f L) (embedding (self s)) [Some characters] s) (\<lambda>inputs.
     thenM init_states (
     bindM (\<lambda>s. run (encoder_f L) (encoder (self s)) [Some inputs] s) (\<lambda>enc0.
     bindM (\<lambda>s. case style_mel of
                   Some sm \<Rightarrow>
                     if gst (self s)
                     then bindM (compute_gst L enc0 sm) (\<lambda>(e, g). retM (e, Some g)) s
                     else retM (enc0, None) s
                 | None \<Rightarrow> retM (enc0, None) s) (\<lambda>(enc1, gst_embedding).
     bindM (case spk of
              None \<Rightarrow> retM enc1
            | Some sp \<Rightarrow>
                thenM (project_speaker L gst_embedding sp)
                  (retM (transpose_f L 0 1 (concat_speaker_embedding L (transpose_f L 0 1 enc1) sp))))
       (\<lambda>encoder_outputs.
     bindM (\<lambda>s. run (decoder_inference_f L) (decoder (self s))
                   [Some encoder_outputs, speaker_embeddings_projected (self s)] s)
       (\<lambda>(decoder_outputs, alignments, stop_tokens).
     bindM (\<lambda>s. run (postnet_f L) (postnet (self s)) [Some decoder_outputs] s) (\<lambda>post0.
     bindM (\<lambda>s. run (last_linear_f L) (last_linear (self s)) [Some post0] s) (\<lambda>postnet_outputs.
     retM [transpose_f L 1 2 decoder_outputs, postnet_outputs, alignments, stop_tokens]))))))))"

section \<open>TTS/bin/train_glow_tts.py\<close>

subsection \<open>Configuration, arguments and the environment\<close>

text \<open>
  The fields of the configuration \<open>c\<close> that the control flow reads. A field that the
  source tests for truth only (\<open>reinit_layers\<close>, \<open>apex_amp_level\<close>) is its truth value;
  \<open>has_characters\<close> is \<open>'characters' in c.keys()\<close>.
\<close>

record config =
  noam_schedule :: bool
  reinit_layers :: bool
  lr :: real
  epochs :: int
  print_step :: int
  tb_plot_step :: int
  save_step :: int
  checkpoint :: bool
  tb_model_param_stats :: bool
  run_eval :: bool
  print_eval :: bool
  test_delay_epochs :: int
  apex_amp_level :: bool
  use_speaker_embedding :: bool
  use_external_speaker_embedding_file :: bool
  speaker_balancer_batch :: bool
  has_characters :: bool
  test_sentences_file :: "string option"
  output_path :: string

text \<open>The parsed command line. \<open>config_path\<close> is \<open>None\<close> when the flag was not given.\<close>

record args =
  continue_path :: string
  restore_path :: string
  config_path :: "string option"
  debug :: bool
  rank :: int
  group_id :: string

datatype batch = Batch nat

record loss_dict =
  loss :: pyfloat
  log_mle :: pyfloat
  loss_dur :: pyfloat

text \<open>Which pass over a data loader a loop makes.\<close>

datatype loader_use = DDI_pass | Train_epoch int | Eval_epoch int

text \<open>The checkpoint files written into the output folder.\<close>

datatype checkpoint_file = Periodic int | Best int

text \<open>
  What the program does to the world outside it, in order: one event per call of a
  collaborator (torch, apex, the logger, the rest of the TTS package). \<open>Call name\<close> is a
  call whose arguments play no part below.
\<close>

datatype event =
    Call string
  | TorchLoad string
  | LoadConfig string
  | FormatData batch
  | SetDDI bool
  | ModelForward bool batch
  | Criterion int
  | Backward pyfloat
  | OptimizerStep
  | WriteCheckpoint checkpoint_file
  | NoamLR int
  | Synthesis nat string
  | SaveWav nat
  | TestFigure nat
  | PrintError nat
  | RemoveExperimentFolder string

text \<open>A model state dict: parameter names with the shape and the values of the tensor.\<close>

type_synonym state_dict = "(string \<times> nat list \<times> real list) list"

text \<open>An optimizer: its per-parameter state and its parameter groups (\<open>group['lr']\<close>,
  \<open>group['initial_lr']\<close> and the number of parameters of the group).\<close>

record param_group =
  group_lr :: real
  group_initial_lr :: "real option"
  n_params :: nat

record optimizer_obj =
  opt_state :: "(nat \<times> real list) list"
  param_groups :: "param_group list"

text \<open>A checkpoint file as \<open>torch.load\<close> returns it, with the keys the file layout
  always has and the optional \<open>'amp'\<close>.\<close>

record checkpoint_rec =
  ck_model :: state_dict
  ck_optimizer :: optimizer_obj
  ck_step :: int
  ck_amp :: "nat option"

text \<open>
  The collaborators. \<open>raises\<close> says whether a call raises, given all the events before
  it; the other fields are the values that calls return. \<open>use_cuda\<close> and \<open>num_gpus\<close>
  are what \<open>setup_torch_training_env\<close> returned when the module was loaded.
\<close>

record env =
  raises :: "event list \<Rightarrow> event \<Rightarrow> py_exception option"
  use_cuda :: bool
  num_gpus :: int
  batches :: "loader_use \<Rightarrow> batch list"
  criterion_out :: "event list \<Rightarrow> loss_dict"
  avg_values :: "event list \<Rightarrow> string \<Rightarrow> pyfloat option"
  torch_load :: "string \<Rightarrow> checkpoint_rec"
  glob_files :: "string \<Rightarrow> string list"
  getctime :: "string \<Rightarrow> real"
  load_config :: "string \<Rightarrow> config"
  create_experiment_folder :: string
  read_sentences :: "string \<Rightarrow> string list"
  speaker_mapping :: "nat option"

text \<open>The state of a run: the events so far, and the model parameters and the optimizer
  that \<open>setup_model\<close> and \<open>RAdam\<close> created.\<close>

record st =
  trace :: "event list"
  model :: state_dict
  optimizer :: optimizer_obj

definition call :: "env \<Rightarrow> event \<Rightarrow> (st, unit) m" where
  "call E ev = (\<lambda>s. case raises E (trace s) ev of
                      None \<Rightarrow> (Inr (), s\<lparr>trace := trace s @ [ev]\<rparr>)
                    | Some e \<Rightarrow> (Inl e, s\<lparr>trace := trace s @ [ev]\<rparr>))"

definition calls :: "env \<Rightarrow> event list \<Rightarrow> (st, unit) m" where
  "calls E evs = forM (call E) evs"

text \<open>Console output: recorded, never raising.\<close>

definition emit :: "event \<Rightarrow> (st, unit) m" where
  "emit ev = (\<lambda>s. (Inr (), s\<lparr>trace := trace s @ [ev]\<rparr>))"

text \<open>\<open>a % b == 0\<close> on Python integers.\<close>

definition py_mod_is_0 :: "int \<Rightarrow> int \<Rightarrow> (st, bool) m" where
  "py_mod_is_0 a b = (if b = 0 then raiseM ZeroDivisionError else retM (a mod b = 0))"

text \<open>\<open>d[key]\<close> on a dict.\<close>

definition py_getitem :: "('k \<Rightarrow> 'v option) \<Rightarrow> 'k \<Rightarrow> (st, 'v) m" where
  "py_getitem d k = (case d k of None \<Rightarrow> raiseM KeyError | Some v \<Rightarrow> retM v)"

subsection \<open>torch: loading state dicts\<close>

text \<open>
  \<open>Module.load_state_dict(sd)\<close> with \<open>strict=True\<close> copies every entry of \<open>sd\<close> whose name
  the module has with the same shape, and then raises \<open>RuntimeError\<close> unless the names of
  \<open>sd\<close> are exactly the module's and every shape was the same.
\<close>

definition copy_matching :: "state_dict \<Rightarrow> state_dict \<Rightarrow> state_dict" where
  "copy_matching own sd =
     map (\<lambda>(k, t). case map_of sd k of
                      Some t' \<Rightarrow> if fst t' = fst t then (k, t') else (k, t)
                    | None \<Rightarrow> (k, t)) own"

definition strict_match :: "state_dict \<Rightarrow> state_dict \<Rightarrow> bool" where
  "strict_match own sd =
     (set (map fst sd) = set (map fst own) \<and>
      list_all (\<lambda>(k, t). case map_of sd k of Some t' \<Rightarrow> fst t' = fst t | None \<Rightarrow> False) own)"

definition model_load_state_dict :: "state_dict \<Rightarrow> (st, unit) m" where
  "model_load_state_dict sd =
     (\<lambda>s. (if strict_match (model s) sd then Inr () else Inl RuntimeError,
           s\<lparr>model := copy_matching (model s) sd\<rparr>))"

text \<open>\<open>Optimizer.load_state_dict(sd)\<close> raises \<open>ValueError\<close> when the parameter groups do
  not have the sizes of the optimizer's own, and otherwise takes the state and the groups
  of \<open>sd\<close>.\<close>

definition optimizer_load_state_dict :: "optimizer_obj \<Rightarrow> (st, unit) m" where
  "optimizer_load_state_dict sd =
     (\<lambda>s. if map n_params (param_groups sd) = map n_params (param_groups (optimizer s))
           then (Inr (), s\<lparr>optimizer := sd\<rparr>)
           else (Inl ValueError, s))"

text \<open>
  Modelled from the spec: \<open>set_init_dict\<close> of \<open>TTS.utils.generic_utils\<close> is not among the
  source files. The partial load "copies only parameters whose name and shape match,
  leaving the rest at their freshly initialized values".
\<close>

definition set_init_dict :: "state_dict \<Rightarrow> state_dict \<Rightarrow> config \<Rightarrow> state_dict" where
  "set_init_dict model_dict checkpoint_state c = copy_matching model_dict checkpoint_state"

text \<open>
  Modelled from the spec: \<open>save_checkpoint\<close> and \<open>save_best_model\<close> of \<open>TTS.tts.utils.io\<close>
  are not among the source files. The first "persists a checkpoint"; the second compares
  "the epoch's target loss against the best-seen loss" and updates "the best checkpoint
  if improved", returning the best loss. Neither is given the rank of the process.
\<close>

definition save_checkpoint :: "env \<Rightarrow> int \<Rightarrow> (st, unit) m" where
  "save_checkpoint E global_step = call E (WriteCheckpoint (Periodic global_step))"

definition save_best_model :: "env \<Rightarrow> pyfloat \<Rightarrow> pyfloat \<Rightarrow> int \<Rightarrow> (st, pyfloat) m" where
  "save_best_model E target_loss best_loss global_step =
     (if float_lt target_loss best_loss
      then thenM (call E (WriteCheckpoint (Best global_step))) (retM target_loss)
      else retM best_loss)"

subsection \<open>setup_loader and data_depended_init\<close>

text \<open>\<open>setup_loader\<close> returns whether the loader is not \<open>None\<close>. The batches a loader
  yields in a pass over it are \<open>batches\<close> of the environment.\<close>

definition setup_loader :: "env \<Rightarrow> config \<Rightarrow> bool \<Rightarrow> (st, bool) m" where
  "setup_loader E c is_val =
     (if is_val \<and> \<not> run_eval c then retM False
      else
        thenM (call E (Call ''MyDataset'')) (
        thenM (whenM (num_gpus E > 1) (call E (Call ''DistributedSampler''))) (
        thenM (whenM (speaker_balancer_batch c \<and> \<not> num_gpus E > 1 \<and> \<not> is_val)
                 (call E (Call ''WeightedRandomSampler''))) (
        thenM (call E (Call ''DataLoader''))
        (retM True)))))"

text \<open>\<open>set_ddi\<close> on every flow that has it is one event; the loop body runs for the first
  batch only (\<open>break\<close>), under \<open>torch.no_grad()\<close>.\<close>

definition data_depended_init :: "env \<Rightarrow> config \<Rightarrow> (st, unit) m" where
  "data_depended_init E c =
     thenM (call E (SetDDI True)) (
     thenM (setup_loader E c False) (
     thenM (call E (Call ''model.train'')) (
     thenM (case batches E DDI_pass of
              [] \<Rightarrow> retM ()
            | data # _ \<Rightarrow> thenM (call E (FormatData data)) (call E (ModelForward False data))) (
     call E (SetDDI False)))))"

subsection \<open>train\<close>

text \<open>
  One iteration of the loop of \<open>train\<close>; it returns the incremented \<open>global_step\<close>.
  \<open>speaker_ids\<close> is \<open>None\<close> exactly when \<open>c.use_speaker_embedding\<close> is false, and then
  \<open>speaker_ids[:1]\<close> raises \<open>TypeError\<close>. The second value of \<open>check_update\<close> is bound to
  \<open>_\<close> and never read.
\<close>

definition train_step :: "env \<Rightarrow> config \<Rightarrow> args \<Rightarrow> bool \<Rightarrow> batch \<Rightarrow> int \<Rightarrow> (st, int) m" where
  "train_step E c a amp data global_step0 =
     (let global_step = global_step0 + 1 in
      thenM (call E (FormatData data)) (
      thenM (whenM (noam_schedule c) (call E (Call ''scheduler.step''))) (
      thenM (call E (Call ''optimizer.zero_grad'')) (
      thenM (call E (ModelForward True data)) (
      thenM (call E (Criterion global_step)) (
      bindM (\<lambda>s. (Inr (criterion_out E (trace s)), s)) (\<lambda>loss_dict.
      thenM (if amp
             then thenM (call E (Call ''amp.scale_loss'')) (call E (Backward (loss loss_dict)))
             else call E (Backward (loss loss_dict))) (
      thenM (whenM amp (call E (Call ''amp.master_params''))) (
      thenM (call E (Call ''check_update'')) (
      thenM (call E OptimizerStep) (
      thenM (call E (Call ''alignment_diagonal_score'')) (
      thenM (whenM (num_gpus E > 1)
               (calls E [Call ''reduce_tensor'', Call ''reduce_tensor'', Call ''reduce_tensor''])) (
      thenM (call E (Call ''keep_avg.update_values'')) (
      thenM (bindM (py_mod_is_0 global_step (print_step c)) (\<lambda>z.
               whenM z (call E (Call ''c_logger.print_train_step'')))) (
      thenM (whenM (rank a = 0) (
               thenM (bindM (py_mod_is_0 global_step (tb_plot_step c)) (\<lambda>z.
                        whenM z (call E (Call ''tb_logger.tb_train_iter_stats'')))) (
               bindM (py_mod_is_0 global_step (save_step c)) (\<lambda>z.
                 whenM z (
                   thenM (whenM (checkpoint c) (
                            thenM (whenM amp (call E (Call ''amp.state_dict'')))
                                  (save_checkpoint E global_step))) (
                   thenM (whenM (\<not> use_speaker_embedding c) (raiseM TypeError)) (
                   calls E [Call ''model.inference'', Call ''plot_spectrogram'',
                            Call ''plot_spectrogram'', Call ''plot_alignment'',
                            Call ''tb_logger.tb_train_figures'', Call ''ap.inv_melspectrogram'',
                            Call ''tb_logger.tb_train_audios''])))))))
      (retM global_step))))))))))))))))"

fun train_steps :: "env \<Rightarrow> config \<Rightarrow> args \<Rightarrow> bool \<Rightarrow> batch list \<Rightarrow> int \<Rightarrow> (st, int) m" where
  "train_steps E c a amp [] global_step = retM global_step"
| "train_steps E c a amp (data # rest) global_step =
     bindM (train_step E c a amp data global_step) (train_steps E c a amp rest)"

definition train :: "env \<Rightarrow> config \<Rightarrow> args \<Rightarrow> bool \<Rightarrow> int \<Rightarrow> int
    \<Rightarrow> (st, (string \<Rightarrow> pyfloat option) \<times> int) m" where
  "train E c a amp global_step0 epoch =
     thenM (calls E [Call ''model.train'', Call ''c_logger.print_train_start'']) (
     bindM (train_steps E c a amp (batches E (Train_epoch epoch)) global_step0) (\<lambda>global_step.
     thenM (call E (Call ''c_logger.print_train_epoch_end'')) (
     thenM (whenM (rank a = 0) (
              thenM (call E (Call ''tb_logger.tb_train_epoch_stats''))
                    (whenM (tb_model_param_stats c) (call E (Call ''tb_logger.tb_model_weights''))))) (
     (\<lambda>s. (Inr (avg_values E (trace s), global_step), s))))))"

subsection \<open>evaluate\<close>

definition eval_step :: "env \<Rightarrow> config \<Rightarrow> int \<Rightarrow> batch \<Rightarrow> (st, unit) m" where
  "eval_step E c global_step data =
     thenM (call E (FormatData data)) (
     thenM (call E (ModelForward False data)) (
     thenM (call E (Criterion global_step)) (
     thenM (call E (Call ''alignment_diagonal_score'')) (
     thenM (whenM (num_gpus E > 1)
              (calls E [Call ''reduce_tensor'', Call ''reduce_tensor'', Call ''reduce_tensor''])) (
     thenM (call E (Call ''keep_avg.update_values''))
     (whenM (print_eval c) (call E (Call ''c_logger.print_eval_step''))))))))"

definition default_test_sentences :: "string list" where
  "default_test_sentences =
     [''It took me quite a long time to develop a voice, and now that I have it I'm not going to be silent.'',
      ''Be a voice, not an echo.'',
      ''I'm so'' @ ''rry Dave. I'm afraid I can't do that.'',
      ''This cake is great. It's so delicious and moist.'',
      ''Prior to November 22, 1963.'']"

text \<open>The body of the \<open>try\<close> for one test sentence, and the \<open>try\<close> with its bare
  \<open>except\<close>, which prints the index and the traceback.\<close>

definition synthesize_sentence :: "env \<Rightarrow> nat \<Rightarrow> string \<Rightarrow> (st, unit) m" where
  "synthesize_sentence E idx test_sentence =
     thenM (call E (Synthesis idx test_sentence)) (
     thenM (call E (Call ''os.makedirs'')) (
     thenM (call E (SaveWav idx)) (
     thenM (call E (TestFigure idx))
     (call E (TestFigure idx)))))"

definition test_sentence :: "env \<Rightarrow> nat \<times> string \<Rightarrow> (st, unit) m" where
  "test_sentence E = (\<lambda>(idx, sentence).
     tryM (synthesize_sentence E idx sentence) (emit (PrintError idx)))"

definition test_sentences_loop :: "env \<Rightarrow> string list \<Rightarrow> (st, unit) m" where
  "test_sentences_loop E test_sentences = forM (test_sentence E) (enumerate_from0 test_sentences)"

text \<open>
  In \<open>evaluate\<close>, \<open>text_input\<close> is unbound after a loop over no batch, and
  \<open>randrange(len(speaker_mapping) - 1)\<close> raises \<open>ValueError\<close> on an empty range.
\<close>

definition evaluate :: "env \<Rightarrow> config \<Rightarrow> args \<Rightarrow> bool \<Rightarrow> int \<Rightarrow> int
    \<Rightarrow> (st, string \<Rightarrow> pyfloat option) m" where
  "evaluate E c a has_loader global_step epoch =
     thenM (calls E [Call ''model.eval'', Call ''c_logger.print_eval_start'']) (
     thenM (whenM has_loader (
              thenM (forM (eval_step E c global_step) (batches E (Eval_epoch epoch))) (
              whenM (rank a = 0) (
                thenM (whenM (batches E (Eval_epoch epoch) = []) (raiseM UnboundLocalError)) (
                thenM (whenM (\<not> use_speaker_embedding c) (raiseM TypeError)) (
                calls E [Call ''model.inference'', Call ''plot_spectrogram'',
                         Call ''plot_spectrogram'', Call ''plot_alignment'',
                         Call ''ap.inv_melspectrogram'', Call ''tb_logger.tb_eval_audios'',
                         Call ''tb_logger.tb_eval_stats'', Call ''tb_logger.tb_eval_figures''])))))) (
     thenM (whenM (rank a = 0 \<and> epoch \<ge> test_delay_epochs c) (
              bindM (case test_sentences_file c of
                       None \<Rightarrow> retM default_test_sentences
                     | Some f \<Rightarrow> thenM (call E (Call ''open'')) (retM (read_sentences E f)))
                (\<lambda>test_sentences.
              thenM (whenM (use_speaker_embedding c \<and> use_external_speaker_embedding_file c)
                       (case speaker_mapping E of
                          None \<Rightarrow> raiseM TypeError
                        | Some n \<Rightarrow> whenM (int n - 1 \<le> 0) (raiseM ValueError))) (
              thenM (test_sentences_loop E test_sentences)
              (calls E [Call ''tb_logger.tb_test_audios'', Call ''tb_logger.tb_test_figures'']))))) (
     (\<lambda>s. (Inr (avg_values E (trace s)), s)))))"

subsection \<open>main\<close>

definition set_initial_lr :: "config \<Rightarrow> (st, unit) m" where
  "set_initial_lr c =
     (\<lambda>s. (Inr (), s\<lparr>optimizer := (optimizer s)\<lparr>param_groups :=
               map (\<lambda>group. group\<lparr>group_initial_lr := Some (lr c)\<rparr>)
                   (param_groups (optimizer s))\<rparr>\<rparr>))"

text \<open>The \<open>try\<close> of the restore: the full load, and the partial load of the bare
  \<open>except\<close>.\<close>

definition restore_model :: "config \<Rightarrow> checkpoint_rec \<Rightarrow> (st, unit) m" where
  "restore_model c ckpt =
     tryM (thenM (whenM (\<not> noam_schedule c) (optimizer_load_state_dict (ck_optimizer ckpt))) (
           thenM (whenM (reinit_layers c) (raiseM RuntimeError))
           (model_load_state_dict (ck_model ckpt))))
          (\<lambda>s. model_load_state_dict (set_init_dict (model s) (ck_model ckpt) c) s)"

text \<open>\<open>if args.restore_path: ... else: args.restore_step = 0\<close>; the value is
  \<open>args.restore_step\<close>.\<close>

definition restore :: "env \<Rightarrow> config \<Rightarrow> args \<Rightarrow> bool \<Rightarrow> (st, int) m" where
  "restore E c a amp =
     (if restore_path a \<noteq> []
      then
        thenM (call E (TorchLoad (restore_path a))) (
        thenM (restore_model c (torch_load E (restore_path a))) (
        thenM (whenM (amp \<and> ck_amp (torch_load E (restore_path a)) \<noteq> None)
                 (call E (Call ''amp.load_state_dict''))) (
        thenM (set_initial_lr c)
        (retM (ck_step (torch_load E (restore_path a)))))))
      else retM 0)"

text \<open>\<open>main\<close> from its first line to \<open>amp = None\<close>: the value is whether \<open>amp\<close> is
  set.\<close>

definition create_model :: "env \<Rightarrow> config \<Rightarrow> (st, bool) m" where
  "create_model E c =
     thenM (call E (Call ''AudioProcessor'')) (
     thenM (whenM (has_characters c) (call E (Call ''make_symbols''))) (
     thenM (whenM (num_gpus E > 1) (call E (Call ''init_distributed''))) (
     thenM (calls E [Call ''load_meta_data'', Call ''parse_speakers'', Call ''setup_model'',
                     Call ''RAdam'', Call ''GlowTTSLoss'']) (
     thenM (whenM (apex_amp_level c)
              (calls E [Call ''import apex'', Call ''model.cuda'', Call ''amp.initialize'']))
     (retM (apex_amp_level c))))))"

text \<open>From \<open>if use_cuda:\<close> to \<open>count_parameters\<close>: the value is the \<open>last_epoch\<close> of the
  scheduler, \<open>None\<close> without a scheduler. \<open>DDP\<close> is imported only under
  \<open>c.apex_amp_level\<close>.\<close>

definition create_scheduler :: "env \<Rightarrow> config \<Rightarrow> int \<Rightarrow> (st, int option) m" where
  "create_scheduler E c restore_step =
     thenM (whenM (use_cuda E) (calls E [Call ''model.cuda'', Call ''criterion.cuda''])) (
     thenM (whenM (num_gpus E > 1)
              (if apex_amp_level c then call E (Call ''DDP'') else raiseM NameError)) (
     bindM (if noam_schedule c
            then thenM (call E (NoamLR (restore_step - 1))) (retM (Some (restore_step - 1)))
            else retM None) (\<lambda>scheduler.
     thenM (call E (Call ''count_parameters''))
     (retM scheduler))))"

text \<open>\<open>main\<close> up to the assignment of \<open>global_step\<close>: it returns whether \<open>amp\<close> is set,
  the scheduler and \<open>args.restore_step\<close>.\<close>

definition main_init :: "env \<Rightarrow> config \<Rightarrow> args \<Rightarrow> (st, bool \<times> int option \<times> int) m" where
  "main_init E c a =
     bindM (create_model E c) (\<lambda>amp.
     bindM (restore E c a amp) (\<lambda>restore_step.
     bindM (create_scheduler E c restore_step) (\<lambda>scheduler.
     retM (amp, scheduler, restore_step))))"

text \<open>The body of \<open>for epoch in range(0, c.epochs)\<close>, with \<open>global_step\<close> and
  \<open>best_loss\<close> carried from one epoch to the next.\<close>

fun epoch_loop :: "env \<Rightarrow> config \<Rightarrow> args \<Rightarrow> bool \<Rightarrow> bool \<Rightarrow> int list \<Rightarrow> int \<Rightarrow> pyfloat
    \<Rightarrow> (st, unit) m" where
  "epoch_loop E c a amp eval_loader [] global_step best_loss = retM ()"
| "epoch_loop E c a amp eval_loader (epoch # rest) global_step0 best_loss =
     thenM (call E (Call ''c_logger.print_epoch_start'')) (
     bindM (train E c a amp global_step0 epoch) (\<lambda>(train_avg_loss_dict, global_step).
     bindM (evaluate E c a eval_loader global_step epoch) (\<lambda>eval_avg_loss_dict.
     thenM (call E (Call ''c_logger.print_epoch_end'')) (
     bindM (py_getitem train_avg_loss_dict ''avg_loss'') (\<lambda>train_loss.
     bindM (if run_eval c then py_getitem eval_avg_loss_dict ''avg_loss'' else retM train_loss)
       (\<lambda>target_loss.
     thenM (whenM amp (call E (Call ''amp.state_dict''))) (
     bindM (save_best_model E target_loss best_loss global_step) (\<lambda>best_loss'.
     epoch_loop E c a amp eval_loader rest global_step best_loss'))))))))"

definition py_range :: "int \<Rightarrow> int list" where
  "py_range n = map int [0 ..< nat n]"

definition main :: "env \<Rightarrow> config \<Rightarrow> args \<Rightarrow> (st, unit) m" where
  "main E c a =
     bindM (main_init E c a) (\<lambda>(amp, scheduler, restore_step).
     thenM (whenM (restore_step = 0) (data_depended_init E c)) (
     thenM (setup_loader E c False) (
     bindM (setup_loader E c True) (\<lambda>eval_data_loader.
     epoch_loop E c a amp eval_data_loader (py_range (epochs c)) restore_step PInf))))"

subsection \<open>The script\<close>

text \<open>\<open>if args.continue_path != '': ...\<close>\<close>

definition continue_training :: "env \<Rightarrow> args \<Rightarrow> py_exception + args" where
  "continue_training E a =
     (if continue_path a \<noteq> []
      then (case py_max_key (getctime E) (glob_files E (continue_path a @ ''/*.pth.tar'')) of
              Inl e \<Rightarrow> Inl e
            | Inr latest_model_file \<Rightarrow>
                Inr (a\<lparr>config_path := Some (os_path_join (continue_path a) ''config.json''),
                       restore_path := latest_model_file\<rparr>))
      else Inr a)"

text \<open>\<open>c = load_config(args.config_path)\<close>\<close>

definition read_config :: "env \<Rightarrow> args \<Rightarrow> (st, config) m" where
  "read_config E a =
     (case config_path a of
        None \<Rightarrow> raiseM TypeError
      | Some p \<Rightarrow> thenM (call E (LoadConfig p)) (retM (load_config E p)))"

text \<open>From \<open>check_config_tts(c)\<close> to the \<open>try\<close>: the value is \<open>OUT_PATH\<close>.\<close>

definition prepare_output :: "env \<Rightarrow> args \<Rightarrow> config \<Rightarrow> (st, string) m" where
  "prepare_output E a c =
     thenM (call E (Call ''check_config_tts'')) (
     bindM (if continue_path a = []
            then thenM (call E (Call ''create_experiment_folder''))
                       (retM (create_experiment_folder E))
            else retM (continue_path a)) (\<lambda>OUT_PATH.
     thenM (call E (Call ''ConsoleLogger'')) (
     thenM (whenM (rank a = 0)
              (calls E [Call ''os.makedirs'', Call ''get_git_branch'', Call ''copy_config_file'',
                        Call ''os.chmod'', Call ''os.chmod'', Call ''TensorboardLogger'',
                        Call ''tb_logger.tb_add_text''])) (
     retM OUT_PATH))))"

text \<open>The script from the parsed arguments to the call of \<open>main\<close>: it returns the
  arguments, the configuration and \<open>OUT_PATH\<close>.\<close>

definition startup :: "env \<Rightarrow> args \<Rightarrow> (st, args \<times> config \<times> string) m" where
  "startup E a0 =
     bindM (\<lambda>s. (continue_training E a0, s)) (\<lambda>a.
     bindM (read_config E a) (\<lambda>c.
     bindM (prepare_output E a c) (\<lambda>OUT_PATH.
     retM (a, c, OUT_PATH))))"

text \<open>
  How the process ends: \<open>os._exit(n)\<close> and the end of the script give \<open>Exited n\<close>, an
  exception that nothing catches gives \<open>Uncaught\<close>. The status of the process as a shell
  reports it: an uncaught \<open>SystemExit(n)\<close> gives the low byte of \<open>n\<close>, an uncaught
  \<open>KeyboardInterrupt\<close> ends the process by \<open>SIGINT\<close>, reported as 130, and any other
  uncaught exception gives 1.
\<close>

datatype process_end = Exited int | Uncaught py_exception


text \<open>\<open>try: main(args) except KeyboardInterrupt: ... except Exception: ...\<close>\<close>

definition run_main :: "env \<Rightarrow> config \<Rightarrow> args \<Rightarrow> string \<Rightarrow> st \<Rightarrow> process_end \<times> st" where
  "run_main E c a OUT_PATH s =
     (case main E c a s of
        (Inr u, s1) \<Rightarrow> (Exited 0, s1)
      | (Inl KeyboardInterrupt, s1) \<Rightarrow>
          (case call E (RemoveExperimentFolder OUT_PATH) s1 of
             (Inl e, s2) \<Rightarrow> (Uncaught e, s2)
           | (Inr u, s2) \<Rightarrow> (Exited 0, s2))
      | (Inl e, s1) \<Rightarrow>
          if is_Exception e
          then (case call E (RemoveExperimentFolder OUT_PATH) s1 of
                  (Inl e', s2) \<Rightarrow> (Uncaught e', s2)
                | (Inr u, s2) \<Rightarrow> (Uncaught (SystemExit 1), s2))
          else (Uncaught e, s1))"

definition script :: "env \<Rightarrow> args \<Rightarrow> st \<Rightarrow> process_end \<times> st" where
  "script E a0 s =
     (case startup E a0 s of
        (Inl e, s1) \<Rightarrow> (Uncaught e, s1)
      | (Inr (a, c, OUT_PATH), s1) \<Rightarrow> run_main E c a OUT_PATH s1)"

subsection \<open>Events of a statement\<close>

text \<open>\<open>emits P f\<close>: whatever the state, \<open>f\<close> only appends events to the trace, and every
  event it appends satisfies \<open>P\<close>.\<close>

definition emits :: "(event \<Rightarrow> bool) \<Rightarrow> (st, 'a) m \<Rightarrow> bool" where
  "emits P f = (\<forall>s. \<exists>evs. trace (snd (f s)) = trace s @ evs \<and> list_all P evs)"

text \<open>The events that \<open>f\<close> appends when started in \<open>s\<close>.\<close>

definition new_events :: "(st, 'a) m \<Rightarrow> st \<Rightarrow> event list" where
  "new_events f s = drop (length (trace s)) (trace (snd (f s)))"



text \<open>\<open>succeeds f\<close>: whatever the state, \<open>f\<close> returns without raising.\<close>

definition succeeds :: "(st, 'a) m \<Rightarrow> bool" where
  "succeeds f = (\<forall>s. \<exists>x s'. f s = (Inr x, s'))"

fun is_SetDDI :: "event \<Rightarrow> bool" where
  "is_SetDDI (SetDDI b) = True"
| "is_SetDDI ev = False"

text \<open>The events of \<open>setup_loader\<close> for the training set and of \<open>data_depended_init\<close>
  when every call returns.\<close>

definition loader_events :: "env \<Rightarrow> config \<Rightarrow> event list" where
  "loader_events E c =
     [Call ''MyDataset''] @
     (if num_gpus E > 1 then [Call ''DistributedSampler''] else []) @
     (if speaker_balancer_batch c \<and> \<not> num_gpus E > 1 then [Call ''WeightedRandomSampler''] else []) @
     [Call ''DataLoader'']"

definition ddi_events :: "env \<Rightarrow> config \<Rightarrow> event list" where
  "ddi_events E c =
     [SetDDI True] @ loader_events E c @ [Call ''model.train''] @
     (case batches E DDI_pass of
        [] \<Rightarrow> []
      | data # rest \<Rightarrow> [FormatData data, ModelForward False data]) @
     [SetDDI False]"

text \<open>\<open>runs F f\<close>: \<open>f\<close> appends the events \<open>F\<close> in this order, all of them unless it
  raises.\<close>

definition runs :: "event list \<Rightarrow> (st, 'a) m \<Rightarrow> bool" where
  "runs F f = (\<forall>s. \<exists>evs rest. trace (snd (f s)) = trace s @ evs \<and> F = evs @ rest \<and>
                 (isl (fst (f s)) \<or> rest = []))"


text \<open>\<open>keeps f\<close>: whatever the state, \<open>f\<close> leaves the model parameters and the optimizer
  as they are.\<close>

definition keeps :: "(st, 'a) m \<Rightarrow> bool" where
  "keeps f = (\<forall>s. model (snd (f s)) = model s \<and> optimizer (snd (f s)) = optimizer s)"

text \<open>Events other than \<open>set_ddi\<close>, and other than the write of a periodic checkpoint.\<close>

abbreviation (input) "notDDI \<equiv> (\<lambda>ev. \<not> is_SetDDI ev)"

abbreviation (input) "notPeriodic \<equiv> (\<lambda>ev. \<forall>n. ev \<noteq> WriteCheckpoint (Periodic n))"
section \<open>Concrete inputs\<close>

text \<open>A small model for the evaluations below: every layer has one parameter and returns
  a constant, and the shape operations are the identity.\<close>

definition example_layers :: layers where
  "example_layers = \<lparr>init_params = (\<lambda>name. [Num 1]),
         embedding_f = (\<lambda>ws ins. Num 0),
         encoder_f = (\<lambda>ws ins. Num 0),
         decoder_f = (\<lambda>ws ins. (Num 0, Num 0, Num 0)),
         decoder_inference_f = (\<lambda>ws ins. (Num 0, Num 0, Num 0)),
         postnet_f = (\<lambda>ws ins. Num 0),
         last_linear_f = (\<lambda>ws ins. Num 0),
         speaker_project_mel_f = (\<lambda>ws ins. Num 0),
         gst_layer_f = (\<lambda>ws ins. Num 0),
         sequence_mask = (\<lambda>t. t),
         transpose_f = (\<lambda>i j t. t),
         squeeze_f = (\<lambda>i t. t),
         expand_as_rows = (\<lambda>t u. t),
         cat_last = (\<lambda>t u. t)\<rparr>"

definition empty_heap :: heap where
  "empty_heap = \<lparr>cells = (\<lambda>a. None), free = 0\<rparr>"

text \<open>One utterance of three frames.\<close>

definition example_mel :: tensor where
  "example_mel = Tensor [Tensor [Tensor [Num 1], Tensor [Num 2], Tensor [Num 3]]]"

text \<open>\<open>Tacotron(num_speakers=2, gst=False, bidirectional_decoder=True)\<close>.\<close>

definition example_model :: tac_state where
  "example_model = (let (tm, h) = Tacotron_init example_layers 2 False True empty_heap
         in \<lparr>cells = cells h, free = free h, self = tm, ran = []\<rparr>)"

text \<open>The same model after a call that left a projected speaker embedding behind.\<close>

definition stale_model :: tac_state where
  "stale_model = example_model\<lparr>self := (self example_model)\<lparr>speaker_embeddings := Some (Num 7),
                      speaker_embeddings_projected := Some (Num 7)\<rparr>\<rparr>"

text \<open>A run on one process without a GPU: a fresh start from \<open>config.json\<close>, one epoch
  over one training batch, no evaluation set, three test sentences read from a file; no
  call raises.\<close>

definition example_config :: config where
  "example_config = \<lparr>noam_schedule = False, reinit_layers = False, lr = 1, epochs = 1,
     print_step = 25, tb_plot_step = 100, save_step = 1000, checkpoint = True,
     tb_model_param_stats = False, run_eval = False, print_eval = False,
     test_delay_epochs = 0, apex_amp_level = False, use_speaker_embedding = True,
     use_external_speaker_embedding_file = False, speaker_balancer_batch = False,
     has_characters = False, test_sentences_file = Some ''sentences.txt'',
     output_path = ''runs''\<rparr>"

definition example_args :: args where
  "example_args = \<lparr>continue_path = [], restore_path = [], config_path = Some ''config.json'',
     debug = False, rank = 0, group_id = []\<rparr>"

definition example_checkpoint :: checkpoint_rec where
  "example_checkpoint = \<lparr>ck_model = [(''w'', [2], [1, 1]), (''b'', [3], [9, 9, 9]), (''old'', [1], [5])],
     ck_optimizer = \<lparr>opt_state = [(0, [1])],
                     param_groups = [\<lparr>group_lr = 1, group_initial_lr = None, n_params = 2\<rparr>]\<rparr>,
     ck_step = 5, ck_amp = None\<rparr>"

definition quiet_env :: env where
  "quiet_env = \<lparr>raises = (\<lambda>h ev. None), use_cuda = False, num_gpus = 1,
     batches = (\<lambda>u. [Batch 0]),
     criterion_out = (\<lambda>h. \<lparr>loss = Fin 1, log_mle = Fin 1, loss_dur = Fin 0\<rparr>),
     avg_values = (\<lambda>h k. if k = ''avg_loss'' then Some (Fin 1) else None),
     torch_load = (\<lambda>p. example_checkpoint),
     glob_files = (\<lambda>p. if p = ''out/*.pth.tar'' then [''out/a.pth.tar'', ''out/b.pth.tar''] else []),
     getctime = (\<lambda>f. if f = ''out/b.pth.tar'' then 2 else 1),
     load_config = (\<lambda>p. example_config),
     create_experiment_folder = ''runs/new'',
     read_sentences = (\<lambda>f. [''a'', ''b'', ''c'']),
     speaker_mapping = None\<rparr>"

definition start_state :: st where
  "start_state = \<lparr>trace = [], model = [(''w'', [2], [0, 0]), (''b'', [1], [0])],
     optimizer = \<lparr>opt_state = [],
                  param_groups = [\<lparr>group_lr = 1, group_initial_lr = None, n_params = 2\<rparr>]\<rparr>\<rparr>"

text \<open>The criterion returns a NaN loss.\<close>

definition nan_env :: env where
  "nan_env = quiet_env\<lparr>criterion_out := (\<lambda>h. \<lparr>loss = NaN, log_mle = NaN, loss_dur = Fin 0\<rparr>)\<rparr>"

text \<open>The synthesis of the second test sentence fails.\<close>

definition failing_synthesis_env :: env where
  "failing_synthesis_env = quiet_env\<lparr>raises :=
     (\<lambda>h ev. if ev = Synthesis 1 ''b'' then Some RuntimeError else None)\<rparr>"

text \<open>The first call of \<open>main\<close> is interrupted, or fails.\<close>

definition interrupted_env :: env where
  "interrupted_env = quiet_env\<lparr>raises :=
     (\<lambda>h ev. if ev = Call ''AudioProcessor'' then Some KeyboardInterrupt else None)\<rparr>"

definition failing_env :: env where
  "failing_env = quiet_env\<lparr>raises :=
     (\<lambda>h ev. if ev = Call ''AudioProcessor'' then Some RuntimeError else None)\<rparr>"

text \<open>The first call of \<open>main\<close> ends the process with \<open>sys.exit(3)\<close>.\<close>

definition exiting_env :: env where
  "exiting_env = quiet_env\<lparr>raises :=
     (\<lambda>h ev. if ev = Call ''AudioProcessor'' then Some (SystemExit 3) else None)\<rparr>"

text \<open>The Tensorboard logger, created before the \<open>try\<close> of the script, fails.\<close>

definition failing_startup_env :: env where
  "failing_startup_env = quiet_env\<lparr>raises :=
     (\<lambda>h ev. if ev = Call ''TensorboardLogger'' then Some RuntimeError else None)\<rparr>"

text \<open>The user interrupts the synthesis of the second test sentence.\<close>

definition interrupted_synthesis_env :: env where
  "interrupted_synthesis_env = quiet_env\<lparr>raises :=
     (\<lambda>h ev. if ev = Synthesis 1 ''b'' then Some KeyboardInterrupt else None)\<rparr>"

text \<open>Two processes with apex: the process of rank 1.\<close>

definition distributed_env :: env where
  "distributed_env = quiet_env\<lparr>use_cuda := True, num_gpus := 2\<rparr>"

definition distributed_config :: config where
  "distributed_config = example_config\<lparr>apex_amp_level := True\<rparr>"

definition rank1_args :: args where
  "rank1_args = example_args\<lparr>rank := 1\<rparr>"

section \<open>Properties of models/tacotron.py\<close>

subsection \<open>The parameter store\<close>

lemma new_module_props:
  "new_module ws h = (md, h') \<Longrightarrow>
     oid md = free h \<and> params md = map (\<lambda>i. free h + 1 + i) [0 ..< length ws] \<and>
     free h' = free h + 1 + length ws"
  by (auto simp: new_module_def Let_def)

lemma optional_new_module:
  "optional_module b (new_module ws) h = (r, h') \<Longrightarrow>
     free h \<le> free h' \<and> (\<forall>md. r = Some md \<longrightarrow> oid md = free h)"
  by (cases b; cases "new_module ws h") (auto simp: optional_module_def dest: new_module_props)










subsection \<open>Calls of the submodules\<close>

lemma param_values_self [simp]: "param_values (s\<lparr>self := x\<rparr>) md = param_values s md"
  by (simp add: param_values_def read_cell_def)

lemma param_values_ran [simp]: "param_values (s\<lparr>ran := x\<rparr>) md = param_values s md"
  by (simp add: param_values_def read_cell_def)

lemmas tac_defs = thenM_def bindM_def retM_def init_states_def run_def compute_gst_def attr_def
  backward_inference_def project_speaker_def set_projected_def



lemma forward_indep:
  "forward L ch tlen mel spk (s\<lparr>self := (self s)\<lparr>speaker_embeddings := a, speaker_embeddings_projected := b\<rparr>\<rparr>)
   = forward L ch tlen mel spk (s\<lparr>self := (self s)\<lparr>speaker_embeddings := None, speaker_embeddings_projected := None\<rparr>\<rparr>)"
  by (simp add: forward_def thenM_def bindM_def init_states_def)

lemma embed_then_reset:
  "bindM (\<lambda>s. run f (embedding (self s)) ins s) (\<lambda>x. thenM init_states (K x))
     (s\<lparr>self := (self s)\<lparr>speaker_embeddings := a, speaker_embeddings_projected := b\<rparr>\<rparr>)
   = bindM (\<lambda>s. run f (embedding (self s)) ins s) (\<lambda>x. thenM init_states (K x))
     (s\<lparr>self := (self s)\<lparr>speaker_embeddings := None, speaker_embeddings_projected := None\<rparr>\<rparr>)"
  by (simp add: thenM_def bindM_def init_states_def run_def)

lemma inference_indep:
  "inference L ch spk sm (s\<lparr>self := (self s)\<lparr>speaker_embeddings := a, speaker_embeddings_projected := b\<rparr>\<rparr>)
   = inference L ch spk sm (s\<lparr>self := (self s)\<lparr>speaker_embeddings := None, speaker_embeddings_projected := None\<rparr>\<rparr>)"
  unfolding inference_def by (rule embed_then_reset)

lemma forward_None:
  assumes "forward L ch tlen mel None s = (Inr outs, s')"
  shows "speaker_embeddings (self s') = None \<and> speaker_embeddings_projected (self s') = None \<and>
     (\<exists>enc. (oid (decoder (self s)), [Some enc, Some mel, Some (sequence_mask L tlen), None])
         \<in> set (drop (length (ran s)) (ran s')))"
  using assms
  by (auto simp add: forward_def thenM_def bindM_def init_states_def run_def retM_def compute_gst_def attr_def backward_inference_def
       split: if_splits prod.splits sum.splits option.splits)

lemma inference_None:
  assumes "inference L ch None sm s = (Inr outs, s')"
  shows "speaker_embeddings (self s') = None \<and> speaker_embeddings_projected (self s') = None \<and>
     (\<exists>enc. (oid (decoder (self s)), [Some enc, None])
         \<in> set (drop (length (ran s)) (ran s')))"
  using assms
  by (auto simp add: inference_def thenM_def bindM_def init_states_def run_def retM_def compute_gst_def attr_def 
       split: if_splits prod.splits sum.splits option.splits)

lemmas eval_defs = example_layers_def empty_heap_def example_mel_def example_model_def
  stale_model_def Tacotron_init_def new_module_def optional_module_def deepcopy_def
  param_values_def read_cell_def Let_def

subsection \<open>The backward decoder\<close>



subsection \<open>The stored speaker embeddings\<close>

text \<open>
  C10. \<open>forward\<close> and \<open>inference\<close> reset \<open>speaker_embeddings\<close> and
  \<open>speaker_embeddings_projected\<close> before either field is read or written (in
  \<open>inference\<close> only the embedding lookup comes before the reset), so their result does not
  depend on what an earlier call stored there. A call without speaker embeddings that
  returns has passed \<open>None\<close> to the decoder as the projected speaker embedding, and leaves
  both fields \<open>None\<close>, for \<open>inference\<close> with or without a style input.
\<close>

theorem speaker_state_reset:
  "forward L ch tlen mel spk (s\<lparr>self := (self s)\<lparr>speaker_embeddings := a, speaker_embeddings_projected := b\<rparr>\<rparr>)
     = forward L ch tlen mel spk (s\<lparr>self := (self s)\<lparr>speaker_embeddings := None, speaker_embeddings_projected := None\<rparr>\<rparr>)
   \<and> inference L ch spk sm (s\<lparr>self := (self s)\<lparr>speaker_embeddings := a, speaker_embeddings_projected := b\<rparr>\<rparr>)
     = inference L ch spk sm (s\<lparr>self := (self s)\<lparr>speaker_embeddings := None, speaker_embeddings_projected := None\<rparr>\<rparr>)
   \<and> (\<forall>outs s'. forward L ch tlen mel None s = (Inr outs, s') \<longrightarrow>
         speaker_embeddings (self s') = None \<and> speaker_embeddings_projected (self s') = None \<and>
         (\<exists>enc. (oid (decoder (self s)), [Some enc, Some mel, Some (sequence_mask L tlen), None])
            \<in> set (drop (length (ran s)) (ran s'))))
   \<and> (\<forall>outs s'. inference L ch None sm s = (Inr outs, s') \<longrightarrow>
         speaker_embeddings (self s') = None \<and> speaker_embeddings_projected (self s') = None \<and>
         (\<exists>enc. (oid (decoder (self s)), [Some enc, None])
            \<in> set (drop (length (ran s)) (ran s'))))"
proof -
  have 1: "forward L ch tlen mel spk (s\<lparr>self := (self s)\<lparr>speaker_embeddings := a, speaker_embeddings_projected := b\<rparr>\<rparr>)
     = forward L ch tlen mel spk (s\<lparr>self := (self s)\<lparr>speaker_embeddings := None, speaker_embeddings_projected := None\<rparr>\<rparr>)"
    by (rule forward_indep)
  have 2: "inference L ch spk sm (s\<lparr>self := (self s)\<lparr>speaker_embeddings := a, speaker_embeddings_projected := b\<rparr>\<rparr>)
     = inference L ch spk sm (s\<lparr>self := (self s)\<lparr>speaker_embeddings := None, speaker_embeddings_projected := None\<rparr>\<rparr>)"
    by (rule inference_indep)
  have 3: "\<forall>outs s'. forward L ch tlen mel None s = (Inr outs, s') \<longrightarrow>
         speaker_embeddings (self s') = None \<and> speaker_embeddings_projected (self s') = None \<and>
         (\<exists>enc. (oid (decoder (self s)), [Some enc, Some mel, Some (sequence_mask L tlen), None])
            \<in> set (drop (length (ran s)) (ran s')))"
    using forward_None by blast
  have 4: "\<forall>outs s'. inference L ch None sm s = (Inr outs, s') \<longrightarrow>
         speaker_embeddings (self s') = None \<and> speaker_embeddings_projected (self s') = None \<and>
         (\<exists>enc. (oid (decoder (self s)), [Some enc, None])
            \<in> set (drop (length (ran s)) (ran s')))"
    using inference_None by blast
  show ?thesis
    by (rule conjI[OF 1 conjI[OF 2 conjI[OF 3 4]]])
qed

theorem speaker_state_reset_witness:
  "(\<exists>outs s'. forward example_layers (Num 0) (Num 0) example_mel None stale_model = (Inr outs, s')
       \<and> speaker_embeddings_projected (self s') = None
       \<and> (\<exists>enc. (4, [Some enc, Some example_mel, Some (Num 0), None]) \<in> set (ran s')))
   \<and> (\<exists>outs s'. inference example_layers (Num 0) None None stale_model = (Inr outs, s')
       \<and> speaker_embeddings_projected (self s') = None
       \<and> (\<exists>enc. (4, [Some enc, None]) \<in> set (ran s')))"
proof -
  obtain outs sf where f: "forward example_layers (Num 0) (Num 0) example_mel None stale_model = (Inr outs, sf)"
    by (simp add: eval_defs forward_def tac_defs)
  obtain outs2 si where i: "inference example_layers (Num 0) None None stale_model = (Inr outs2, si)"
    by (simp add: eval_defs inference_def tac_defs)
  have d: "oid (decoder (self stale_model)) = 4" "ran stale_model = []"
      "sequence_mask example_layers (Num 0) = Num 0"
    by (simp_all add: eval_defs)
  note T = speaker_state_reset[where L=example_layers and ch="Num 0" and tlen="Num 0" and mel=example_mel
    and s=stale_model and sm=None]
  from T f have "speaker_embeddings_projected (self sf) = None"
    by blast
  moreover from T f obtain enc where
    "(4, [Some enc, Some example_mel, Some (Num 0), None]) \<in> set (ran sf)"
    using d by force
  moreover from T i have "speaker_embeddings_projected (self si) = None"
    by blast
  moreover from T i obtain enc2 where "(4, [Some enc2, None]) \<in> set (ran si)"
    using d by force
  ultimately show ?thesis
    using f i by blast
qed

section \<open>Properties of the training script\<close>

subsection \<open>Rules for emits\<close>

named_theorems emits_intros

lemma emitsI:
  assumes "\<And>s. \<exists>evs. trace (snd (f s)) = trace s @ evs \<and> list_all P evs"
  shows "emits P f"
  using assms by (simp add: emits_def)

lemma emitsD:
  assumes "emits P f"
  obtains evs where "trace (snd (f s)) = trace s @ evs" "list_all P evs"
  using assms unfolding emits_def by blast

lemma emits_ret [emits_intros]: "emits P (retM x)"
  by (simp add: emits_def retM_def)

lemma emits_raise [emits_intros]: "emits P (raiseM e)"
  by (simp add: emits_def raiseM_def)

lemma emits_read [emits_intros]: "emits P (\<lambda>s. (Inr (h s), s))"
  by (simp add: emits_def)

lemma emits_pure [emits_intros]: "emits P (\<lambda>s. (r, s))"
  by (simp add: emits_def)

lemma emits_call [emits_intros]: "P ev \<Longrightarrow> emits P (call E ev)"
  by (simp add: emits_def call_def split: option.splits)

lemma emits_emit [emits_intros]: "P ev \<Longrightarrow> emits P (emit ev)"
  by (simp add: emits_def emit_def)

lemma emits_bind [emits_intros]:
  assumes "emits P f" and "\<And>x. emits P (g x)"
  shows "emits P (bindM f g)"
proof (rule emitsI)
  fix s
  obtain r s1 where f: "f s = (r, s1)" by force
  from emitsD[OF assms(1), of s] f obtain evs where e1: "trace s1 = trace s @ evs" "list_all P evs"
    by auto
  show "\<exists>evs. trace (snd (bindM f g s)) = trace s @ evs \<and> list_all P evs"
  proof (cases r)
    case (Inl e)
    then show ?thesis using f e1 by (simp add: bindM_def)
  next
    case (Inr x)
    from emitsD[OF assms(2), of x s1] obtain evs2 where
      e2: "trace (snd (g x s1)) = trace s1 @ evs2" "list_all P evs2" by auto
    then show ?thesis using f Inr e1 by (simp add: bindM_def)
  qed
qed

lemma emits_then [emits_intros]: "emits P f \<Longrightarrow> emits P g \<Longrightarrow> emits P (thenM f g)"
  by (simp add: thenM_def emits_bind)

lemma emits_try [emits_intros]:
  assumes "emits P f" and "emits P h"
  shows "emits P (tryM f h)"
proof (rule emitsI)
  fix s
  obtain r s1 where f: "f s = (r, s1)" by force
  from emitsD[OF assms(1), of s] f obtain evs where e1: "trace s1 = trace s @ evs" "list_all P evs"
    by auto
  show "\<exists>evs. trace (snd (tryM f h s)) = trace s @ evs \<and> list_all P evs"
  proof (cases r)
    case (Inr x)
    then show ?thesis using f e1 by (simp add: tryM_def)
  next
    case (Inl e)
    from emitsD[OF assms(2), of s1] obtain evs2 where
      e2: "trace (snd (h s1)) = trace s1 @ evs2" "list_all P evs2" by auto
    then show ?thesis using f Inl e1 by (simp add: tryM_def)
  qed
qed

lemma emits_when [emits_intros]: "(b \<Longrightarrow> emits P f) \<Longrightarrow> emits P (whenM b f)"
  by (simp add: whenM_def emits_ret)

lemma emits_if [emits_intros]:
  "(b \<Longrightarrow> emits P f) \<Longrightarrow> (\<not> b \<Longrightarrow> emits P g) \<Longrightarrow> emits P (if b then f else g)"
  by simp

lemma emits_forM [emits_intros]:
  "(\<And>x. x \<in> set xs \<Longrightarrow> emits P (f x)) \<Longrightarrow> emits P (forM f xs)"
  by (induction xs) (simp_all add: emits_ret emits_then)

lemma emits_calls [emits_intros]: "list_all P evs \<Longrightarrow> emits P (calls E evs)"
  unfolding calls_def by (rule emits_forM) (simp add: emits_call list_all_iff)

lemma emits_case_option [emits_intros]:
  "(x = None \<Longrightarrow> emits P f) \<Longrightarrow> (\<And>y. x = Some y \<Longrightarrow> emits P (g y)) \<Longrightarrow>
     emits P (case x of None \<Rightarrow> f | Some y \<Rightarrow> g y)"
  by (cases x) simp_all

lemma emits_case_list [emits_intros]:
  "(xs = [] \<Longrightarrow> emits P f) \<Longrightarrow> (\<And>y ys. xs = y # ys \<Longrightarrow> emits P (g y ys)) \<Longrightarrow>
     emits P (case xs of [] \<Rightarrow> f | y # ys \<Rightarrow> g y ys)"
  by (cases xs) simp_all

lemma emits_case_prod [emits_intros]:
  "(\<And>a b. emits P (f a b)) \<Longrightarrow> emits P (case p of (a, b) \<Rightarrow> f a b)"
  by (cases p) simp

lemma emits_py_mod [emits_intros]: "emits P (py_mod_is_0 a b)"
  by (simp add: py_mod_is_0_def emits_ret emits_raise)

lemma emits_py_getitem [emits_intros]: "emits P (py_getitem d k)"
  by (simp add: py_getitem_def emits_ret emits_raise split: option.splits)

lemma emits_model_load [emits_intros]: "emits P (model_load_state_dict sd)"
  by (simp add: emits_def model_load_state_dict_def)

lemma emits_optimizer_load [emits_intros]: "emits P (optimizer_load_state_dict sd)"
  by (simp add: emits_def optimizer_load_state_dict_def)

lemma emits_set_initial_lr [emits_intros]: "emits P (set_initial_lr c)"
  by (simp add: emits_def set_initial_lr_def)

lemma emits_mono: "emits P f \<Longrightarrow> (\<And>ev. P ev \<Longrightarrow> Q ev) \<Longrightarrow> emits Q f"
  unfolding emits_def list_all_iff by blast

lemma emits_setup_loader:
  assumes "\<And>n. P (Call n)"
  shows "emits P (setup_loader E c is_val)"
  unfolding setup_loader_def by (intro emits_intros) (simp_all add: assms)

lemma emits_prepare_output: "emits (\<lambda>ev. True) (prepare_output E a c)"
  unfolding prepare_output_def by (intro emits_intros) simp_all

subsection \<open>max with a key, and the first event of a sequence\<close>

lemma foldl_max_key:
  fixes k :: "'a \<Rightarrow> 'k::linorder"
  shows "foldl (\<lambda>best y. if k best < k y then y else best) x xs \<in> set (x # xs) \<and>
   (\<forall>y \<in> set (x # xs). k y \<le> k (foldl (\<lambda>best y. if k best < k y then y else best) x xs))"
proof (induction xs arbitrary: x)
  case Nil
  then show ?case by simp
next
  case (Cons z zs)
  show ?case
    using Cons[of z] Cons[of x] by (auto simp: not_less intro: order_trans less_imp_le)
qed

lemma py_max_key_greatest:
  fixes k :: "'a \<Rightarrow> 'k::linorder"
  assumes "xs \<noteq> []"
  shows "\<exists>x. py_max_key k xs = Inr x \<and> x \<in> set xs \<and> (\<forall>y \<in> set xs. k y \<le> k x)"
proof -
  from assms obtain z zs where xs: "xs = z # zs" by (cases xs) auto
  show ?thesis
    unfolding xs using foldl_max_key[of k z zs] by simp
qed

lemma bindM_pure [simp]: "bindM (\<lambda>s. (Inr x, s)) f = f x"
  by (rule ext) (simp add: bindM_def)

lemma bindM_fail [simp]: "bindM (\<lambda>s. (Inl e, s)) f = (\<lambda>s. (Inl e, s))"
  by (rule ext) (simp add: bindM_def)

lemma call_then_first:
  assumes "\<And>x. emits P (K x)"
  shows "\<exists>evs. trace (snd (bindM (thenM (call E ev) (retM v)) K s)) = trace s @ ev # evs"
proof (cases "raises E (trace s) ev")
  case (Some e)
  then show ?thesis by (simp add: bindM_def thenM_def call_def)
next
  case None
  from emitsD[OF assms, of v "s\<lparr>trace := trace s @ [ev]\<rparr>"] obtain evs where
    "trace (snd (K v (s\<lparr>trace := trace s @ [ev]\<rparr>))) = (trace s @ [ev]) @ evs" by auto
  with None show ?thesis by (simp add: bindM_def thenM_def call_def retM_def)
qed

subsection \<open>Statements that keep the model and the optimizer\<close>

named_theorems keeps_intros

lemma keeps_ret [keeps_intros]: "keeps (retM x)"
  by (simp add: keeps_def retM_def)

lemma keeps_raise [keeps_intros]: "keeps (raiseM e)"
  by (simp add: keeps_def raiseM_def)

lemma keeps_call [keeps_intros]: "keeps (call E ev)"
  by (simp add: keeps_def call_def split: option.splits)

lemma keeps_bind [keeps_intros]:
  assumes "keeps f" and "\<And>x. keeps (g x)"
  shows "keeps (bindM f g)"
  unfolding keeps_def
proof
  fix s
  obtain r s1 where f: "f s = (r, s1)" by force
  have 1: "model s1 = model s \<and> optimizer s1 = optimizer s"
    using assms(1) f unfolding keeps_def by (metis snd_conv)
  show "model (snd (bindM f g s)) = model s \<and> optimizer (snd (bindM f g s)) = optimizer s"
  proof (cases r)
    case (Inl e)
    then show ?thesis using f 1 by (simp add: bindM_def)
  next
    case (Inr x)
    have "model (snd (g x s1)) = model s1 \<and> optimizer (snd (g x s1)) = optimizer s1"
      using assms(2)[of x] unfolding keeps_def by blast
    then show ?thesis using f Inr 1 by (simp add: bindM_def)
  qed
qed

lemma keeps_then [keeps_intros]: "keeps f \<Longrightarrow> keeps g \<Longrightarrow> keeps (thenM f g)"
  by (simp add: thenM_def keeps_bind)

lemma keeps_when [keeps_intros]: "keeps f \<Longrightarrow> keeps (whenM b f)"
  by (simp add: whenM_def keeps_ret)

lemma keeps_if [keeps_intros]: "keeps f \<Longrightarrow> keeps g \<Longrightarrow> keeps (if b then f else g)"
  by simp

lemma keeps_forM [keeps_intros]: "(\<And>x. keeps (f x)) \<Longrightarrow> keeps (forM f xs)"
  by (induction xs) (simp_all add: keeps_ret keeps_then)

lemma keeps_calls [keeps_intros]: "keeps (calls E evs)"
  unfolding calls_def by (rule keeps_forM) (rule keeps_call)

lemma keeps_create_model: "keeps (create_model E c)"
  unfolding create_model_def by (intro keeps_intros)

lemma keeps_create_scheduler: "keeps (create_scheduler E c n)"
  unfolding create_scheduler_def by (intro keeps_intros)

lemma bindM_Inr:
  assumes "bindM f g s = (Inr y, s')"
  obtains x s1 where "f s = (Inr x, s1)" "g x s1 = (Inr y, s')"
  using assms by (auto simp: bindM_def split: prod.splits sum.splits)

lemma thenM_Inr:
  assumes "thenM f g s = (Inr y, s')"
  obtains x s1 where "f s = (Inr x, s1)" "g s1 = (Inr y, s')"
  using assms unfolding thenM_def by (rule bindM_Inr)

subsection \<open>Loading a state dict\<close>

lemma map_fst_copy_matching [simp]: "map fst (copy_matching own sd) = map fst own"
  by (induction own) (auto simp: copy_matching_def split: option.splits)

lemma map_of_copy_matching:
  assumes "distinct (map fst own)" and "(k, t) \<in> set own"
  shows "map_of (copy_matching own sd) k =
           Some (case map_of sd k of Some t' \<Rightarrow> if fst t' = fst t then t' else t | None \<Rightarrow> t)"
proof -
  have d: "distinct (map fst (copy_matching own sd))"
    using assms(1) by simp
  have "(k, case map_of sd k of Some t' \<Rightarrow> if fst t' = fst t then t' else t | None \<Rightarrow> t)
          \<in> set (copy_matching own sd)"
    using assms(2) by (force simp: copy_matching_def split: option.splits)
  with d show ?thesis by simp
qed

lemma strict_match_copy_matching:
  assumes "distinct (map fst own)"
  shows "strict_match own (copy_matching own sd)"
  unfolding strict_match_def list_all_iff
  using map_of_copy_matching[OF assms] by (auto split: option.splits if_splits)

lemma copy_matching_idem: "copy_matching (copy_matching own sd) sd = copy_matching own sd"
  by (induction own) (auto simp: copy_matching_def split: option.splits)

lemma copy_matching_twice:
  assumes "distinct (map fst own)"
  shows "copy_matching own (copy_matching own sd) = copy_matching own sd"
proof -
  have "\<And>k t. (k, t) \<in> set own \<Longrightarrow>
     (case map_of (copy_matching own sd) k of
        Some t' \<Rightarrow> if fst t' = fst t then (k, t') else (k, t) | None \<Rightarrow> (k, t))
      = (case map_of sd k of
           Some t' \<Rightarrow> if fst t' = fst t then (k, t') else (k, t) | None \<Rightarrow> (k, t))"
    using map_of_copy_matching[OF assms] by (auto split: option.splits)
  then have "map (\<lambda>(k, t). case map_of (copy_matching own sd) k of
                      Some t' \<Rightarrow> if fst t' = fst t then (k, t') else (k, t)
                    | None \<Rightarrow> (k, t)) own
         = map (\<lambda>(k, t). case map_of sd k of
                      Some t' \<Rightarrow> if fst t' = fst t then (k, t') else (k, t)
                    | None \<Rightarrow> (k, t)) own"
    by (intro map_cong) auto
  then show ?thesis
    by (simp add: copy_matching_def)
qed

lemma handler_loads:
  assumes "distinct (map fst (model s))" and "m = model s"
  shows "model_load_state_dict (set_init_dict m sd c) s
           = (Inr (), s\<lparr>model := copy_matching (model s) sd\<rparr>)"
  using assms
  by (simp add: model_load_state_dict_def set_init_dict_def strict_match_copy_matching
      copy_matching_twice)

lemma restore_model_result:
  assumes "distinct (map fst (model s))"
  shows "restore_model c ckpt s =
     (Inr (), s\<lparr>model := copy_matching (model s) (ck_model ckpt),
                optimizer := (if \<not> noam_schedule c \<and>
                                  map n_params (param_groups (ck_optimizer ckpt)) =
                                  map n_params (param_groups (optimizer s))
                              then ck_optimizer ckpt else optimizer s)\<rparr>)"
proof -
  have full: "model_load_state_dict (ck_model ckpt) s1 =
      (if strict_match (model s1) (ck_model ckpt) then Inr () else Inl RuntimeError,
       s1\<lparr>model := copy_matching (model s1) (ck_model ckpt)\<rparr>)" for s1
    by (simp add: model_load_state_dict_def)
  show ?thesis
    using assms
    by (simp add: restore_model_def tryM_def thenM_def bindM_def whenM_def retM_def raiseM_def
        optimizer_load_state_dict_def full handler_loads copy_matching_idem)
qed

subsection \<open>The restore block of main\<close>

lemma keepsD: "keeps f \<Longrightarrow> f s = (r, s') \<Longrightarrow> model s' = model s \<and> optimizer s' = optimizer s"
  unfolding keeps_def by (metis snd_conv)

lemma restore_model_optimizer:
  "optimizer (snd (restore_model c ckpt s)) =
     (if \<not> noam_schedule c \<and>
         map n_params (param_groups (ck_optimizer ckpt)) = map n_params (param_groups (optimizer s))
      then ck_optimizer ckpt else optimizer s)"
  by (simp add: restore_model_def tryM_def thenM_def bindM_def whenM_def retM_def raiseM_def
      optimizer_load_state_dict_def model_load_state_dict_def)

lemma restore_Inr:
  assumes "restore_path a \<noteq> []" and "restore E c a amp s = (Inr step, s')"
  shows "step = ck_step (torch_load E (restore_path a)) \<and>
     opt_state (optimizer s') =
       opt_state (if \<not> noam_schedule c \<and>
                     map n_params (param_groups (ck_optimizer (torch_load E (restore_path a)))) =
                     map n_params (param_groups (optimizer s))
                  then ck_optimizer (torch_load E (restore_path a)) else optimizer s) \<and>
     (\<forall>g \<in> set (param_groups (optimizer s')). group_initial_lr g = Some (lr c))"
proof -
  let ?ck = "torch_load E (restore_path a)"
  from assms have r: "thenM (call E (TorchLoad (restore_path a))) (
        thenM (restore_model c ?ck) (
        thenM (whenM (amp \<and> ck_amp ?ck \<noteq> None) (call E (Call ''amp.load_state_dict''))) (
        thenM (set_initial_lr c) (retM (ck_step ?ck))))) s = (Inr step, s')"
    by (simp add: restore_def)
  from r obtain x sa where 1: "call E (TorchLoad (restore_path a)) s = (Inr x, sa)"
    and r1: "thenM (restore_model c ?ck) (
        thenM (whenM (amp \<and> ck_amp ?ck \<noteq> None) (call E (Call ''amp.load_state_dict''))) (
        thenM (set_initial_lr c) (retM (ck_step ?ck)))) sa = (Inr step, s')"
    by (rule thenM_Inr)
  from r1 obtain y sb where 2: "restore_model c ?ck sa = (Inr y, sb)"
    and r2: "thenM (whenM (amp \<and> ck_amp ?ck \<noteq> None) (call E (Call ''amp.load_state_dict''))) (
        thenM (set_initial_lr c) (retM (ck_step ?ck))) sb = (Inr step, s')"
    by (rule thenM_Inr)
  from r2 obtain z sc where 3: "whenM (amp \<and> ck_amp ?ck \<noteq> None) (call E (Call ''amp.load_state_dict'')) sb = (Inr z, sc)"
    and r3: "thenM (set_initial_lr c) (retM (ck_step ?ck)) sc = (Inr step, s')"
    by (rule thenM_Inr)
  have oa: "optimizer sa = optimizer s"
    using keepsD[OF keeps_call 1] by simp
  have ob: "optimizer sb = (if \<not> noam_schedule c \<and>
         map n_params (param_groups (ck_optimizer ?ck)) = map n_params (param_groups (optimizer s))
      then ck_optimizer ?ck else optimizer s)"
    using restore_model_optimizer[of c ?ck sa] 2 oa by simp
  have oc: "optimizer sc = optimizer sb"
    using keepsD[OF keeps_when[OF keeps_call] 3] by simp
  from r3 have "step = ck_step ?ck"
     and "optimizer s' = (optimizer sc)\<lparr>param_groups :=
               map (\<lambda>group. group\<lparr>group_initial_lr := Some (lr c)\<rparr>) (param_groups (optimizer sc))\<rparr>"
    by (auto simp: thenM_def bindM_def set_initial_lr_def retM_def)
  then show ?thesis
    using ob oc by simp
qed

lemma create_scheduler_Inr:
  assumes "create_scheduler E c n s = (Inr sch, s')"
  shows "sch = (if noam_schedule c then Some (n - 1) else None) \<and>
         (noam_schedule c \<longrightarrow> NoamLR (n - 1) \<in> set (trace s'))"
proof -
  from assms obtain x sa where
    r1: "thenM (whenM (num_gpus E > 1)
              (if apex_amp_level c then call E (Call ''DDP'') else raiseM NameError)) (
     bindM (if noam_schedule c
            then thenM (call E (NoamLR (n - 1))) (retM (Some (n - 1)))
            else retM None) (\<lambda>scheduler.
     thenM (call E (Call ''count_parameters''))
     (retM scheduler))) sa = (Inr sch, s')"
    unfolding create_scheduler_def by (rule thenM_Inr)
  from r1 obtain y sb where
    r2: "bindM (if noam_schedule c
            then thenM (call E (NoamLR (n - 1))) (retM (Some (n - 1)))
            else retM None) (\<lambda>scheduler.
     thenM (call E (Call ''count_parameters''))
     (retM scheduler)) sb = (Inr sch, s')"
    by (rule thenM_Inr)
  from r2 show ?thesis
    by (auto simp: bindM_def thenM_def retM_def call_def split: if_splits option.splits)
qed

subsection \<open>The events of the test sentences\<close>



lemma thenM_call_events:
  assumes "emits P g"
  shows "\<exists>evs. trace (snd (thenM (call E ev) g s)) = trace s @ ev # evs \<and> list_all P evs"
proof (cases "raises E (trace s) ev")
  case (Some e)
  then show ?thesis by (simp add: bindM_def thenM_def call_def)
next
  case None
  from emitsD[OF assms, of "s\<lparr>trace := trace s @ [ev]\<rparr>"] obtain evs where
    "trace (snd (g (s\<lparr>trace := trace s @ [ev]\<rparr>))) = (trace s @ [ev]) @ evs" "list_all P evs"
    by auto
  with None show ?thesis by (simp add: bindM_def thenM_def call_def)
qed




subsection \<open>Statements that return\<close>

named_theorems succeeds_intros


lemma succeeds_ret [succeeds_intros]: "succeeds (retM x)"
  by (simp add: succeeds_def retM_def)

lemma succeeds_read [succeeds_intros]: "succeeds (\<lambda>s. (Inr (h s), s))"
  by (simp add: succeeds_def)



lemma succeeds_when [succeeds_intros]: "(b \<Longrightarrow> succeeds f) \<Longrightarrow> succeeds (whenM b f)"
  by (simp add: whenM_def succeeds_ret)

lemma succeeds_if [succeeds_intros]:
  "(b \<Longrightarrow> succeeds f) \<Longrightarrow> (\<not> b \<Longrightarrow> succeeds g) \<Longrightarrow> succeeds (if b then f else g)"
  by simp


lemma succeeds_case_option [succeeds_intros]:
  "(x = None \<Longrightarrow> succeeds f) \<Longrightarrow> (\<And>y. x = Some y \<Longrightarrow> succeeds (g y)) \<Longrightarrow>
     succeeds (case x of None \<Rightarrow> f | Some y \<Rightarrow> g y)"
  by (cases x) simp_all

lemma succeeds_case_list [succeeds_intros]:
  "(xs = [] \<Longrightarrow> succeeds f) \<Longrightarrow> (\<And>y ys. xs = y # ys \<Longrightarrow> succeeds (g y ys)) \<Longrightarrow>
     succeeds (case xs of [] \<Rightarrow> f | y # ys \<Rightarrow> g y ys)"
  by (cases xs) simp_all

lemma succeeds_case_prod [succeeds_intros]:
  "(\<And>a b. succeeds (f a b)) \<Longrightarrow> succeeds (case p of (a, b) \<Rightarrow> f a b)"
  by (cases p) simp



lemma succeeds_emit [succeeds_intros]: "succeeds (emit ev)"
  by (simp add: succeeds_def emit_def)




subsection \<open>One training step\<close>

lemma call_quiet:
  "\<forall>h ev. raises E h ev = None \<Longrightarrow> call E ev = (\<lambda>s. (Inr (), s\<lparr>trace := trace s @ [ev]\<rparr>))"
  by (rule ext) (simp add: call_def)

lemma thenM_step: "thenM (\<lambda>s. (Inr x, h s)) g = (\<lambda>s. g (h s))"
  by (rule ext) (simp add: thenM_def bindM_def)

lemma emits_train_rest:
  "emits (\<lambda>ev. True)
    (thenM (call E (Call ''alignment_diagonal_score'')) (
      thenM (whenM (num_gpus E > 1)
               (calls E [Call ''reduce_tensor'', Call ''reduce_tensor'', Call ''reduce_tensor''])) (
      thenM (call E (Call ''keep_avg.update_values'')) (
      thenM (bindM (py_mod_is_0 global_step (print_step c)) (\<lambda>z.
               whenM z (call E (Call ''c_logger.print_train_step'')))) (
      thenM (whenM (rank a = 0) (
               thenM (bindM (py_mod_is_0 global_step (tb_plot_step c)) (\<lambda>z.
                        whenM z (call E (Call ''tb_logger.tb_train_iter_stats'')))) (
               bindM (py_mod_is_0 global_step (save_step c)) (\<lambda>z.
                 whenM z (
                   thenM (whenM (checkpoint c) (
                            thenM (whenM amp (call E (Call ''amp.state_dict'')))
                                  (save_checkpoint E global_step))) (
                   thenM (whenM (\<not> use_speaker_embedding c) (raiseM TypeError)) (
                   calls E [Call ''model.inference'', Call ''plot_spectrogram'',
                            Call ''plot_spectrogram'', Call ''plot_alignment'',
                            Call ''tb_logger.tb_train_figures'', Call ''ap.inv_melspectrogram'',
                            Call ''tb_logger.tb_train_audios''])))))))
      (retM global_step))))))"
  unfolding save_checkpoint_def by (intro emits_intros) simp_all

subsection \<open>The events of data_depended_init and of the epochs\<close>

lemma runsD:
  assumes "runs F f"
  obtains evs rest where "trace (snd (f s)) = trace s @ evs" "F = evs @ rest"
    "isl (fst (f s)) \<or> rest = []"
  using assms unfolding runs_def by blast

lemma runs_call: "runs [ev] (call E ev)"
  by (auto simp: runs_def call_def split: option.splits)

lemma runs_ret: "runs [] (retM x)"
  by (simp add: runs_def retM_def)

lemma runs_bind:
  assumes "runs F f" and "\<And>x. runs G (g x)"
  shows "runs (F @ G) (bindM f g)"
  unfolding runs_def
proof
  fix s
  obtain r s1 where f: "f s = (r, s1)" by force
  from runsD[OF assms(1), of s] f obtain evs rest where
    1: "trace s1 = trace s @ evs" "F = evs @ rest" "isl r \<or> rest = []" by auto
  show "\<exists>evs rest. trace (snd (bindM f g s)) = trace s @ evs \<and> F @ G = evs @ rest \<and>
          (isl (fst (bindM f g s)) \<or> rest = [])"
  proof (cases r)
    case (Inl e)
    then show ?thesis using f 1 by (auto simp: bindM_def)
  next
    case (Inr x)
    from runsD[OF assms(2), of x s1] obtain evs2 rest2 where
      2: "trace (snd (g x s1)) = trace s1 @ evs2" "G = evs2 @ rest2"
         "isl (fst (g x s1)) \<or> rest2 = []" by auto
    have "rest = []" using 1 Inr by simp
    then show ?thesis using f Inr 1 2
      by (intro exI[of _ "evs @ evs2"] exI[of _ rest2]) (simp add: bindM_def)
  qed
qed

lemma runs_then: "runs F f \<Longrightarrow> runs G g \<Longrightarrow> runs (F @ G) (thenM f g)"
  by (simp add: thenM_def runs_bind)

lemma runs_when: "runs F f \<Longrightarrow> runs (if b then F else []) (whenM b f)"
  by (simp add: whenM_def runs_ret)

lemma runs_setup_loader: "runs (loader_events E c) (setup_loader E c False)"
proof -
  have "runs ([Call ''MyDataset''] @
          ((if num_gpus E > 1 then [Call ''DistributedSampler''] else []) @
          ((if speaker_balancer_batch c \<and> \<not> num_gpus E > 1 \<and> \<not> False
            then [Call ''WeightedRandomSampler''] else []) @
          ([Call ''DataLoader''] @ []))))
     (thenM (call E (Call ''MyDataset'')) (
        thenM (whenM (num_gpus E > 1) (call E (Call ''DistributedSampler''))) (
        thenM (whenM (speaker_balancer_batch c \<and> \<not> num_gpus E > 1 \<and> \<not> False)
                 (call E (Call ''WeightedRandomSampler''))) (
        thenM (call E (Call ''DataLoader''))
        (retM True)))))"
    by (intro runs_then runs_when runs_call runs_ret)
  then show ?thesis
    by (simp add: setup_loader_def loader_events_def)
qed

lemma runs_first_batch:
  "runs (case bs of [] \<Rightarrow> [] | data # rest \<Rightarrow> [FormatData data, ModelForward False data])
     (case bs of
        [] \<Rightarrow> retM ()
      | data # _ \<Rightarrow> thenM (call E (FormatData data)) (call E (ModelForward False data)))"
proof (cases bs)
  case Nil
  then show ?thesis by (simp add: runs_ret)
next
  case (Cons b rest)
  have "runs ([FormatData b] @ [ModelForward False b])
          (thenM (call E (FormatData b)) (call E (ModelForward False b)))"
    by (intro runs_then runs_call)
  with Cons show ?thesis by simp
qed

lemma runs_data_depended_init: "runs (ddi_events E c) (data_depended_init E c)"
  unfolding ddi_events_def data_depended_init_def
  by (intro runs_then runs_call runs_setup_loader runs_first_batch)

lemma emits_data_depended_init:
  "emits (\<lambda>ev. ev \<noteq> SetDDI True \<and> ev \<noteq> OptimizerStep)
     (thenM (setup_loader E c False) (
     thenM (call E (Call ''model.train'')) (
     thenM (case batches E DDI_pass of
              [] \<Rightarrow> retM ()
            | data # _ \<Rightarrow> thenM (call E (FormatData data)) (call E (ModelForward False data))) (
     call E (SetDDI False)))))"
  by (intro emits_intros emits_setup_loader) simp_all

lemma ddi_starts:
  "\<exists>evs. trace (snd (data_depended_init E c s)) = trace s @ SetDDI True # evs \<and>
         list_all (\<lambda>ev. ev \<noteq> SetDDI True \<and> ev \<noteq> OptimizerStep) evs"
  unfolding data_depended_init_def by (rule thenM_call_events[OF emits_data_depended_init])

lemma emits_train_step_notDDI: "emits notDDI (train_step E c a amp b gs)"
  unfolding train_step_def Let_def save_checkpoint_def by (intro emits_intros) simp_all

lemma emits_train_steps_notDDI: "emits notDDI (train_steps E c a amp bs gs)"
  by (induction bs arbitrary: gs) (simp_all add: emits_ret emits_bind emits_train_step_notDDI)

lemma emits_train_notDDI: "emits notDDI (train E c a amp gs ep)"
  unfolding train_def by (intro emits_intros emits_train_steps_notDDI) simp_all

lemma emits_evaluate_notDDI: "emits notDDI (evaluate E c a l gs ep)"
  unfolding evaluate_def eval_step_def test_sentences_loop_def test_sentence_def
    synthesize_sentence_def
  by (intro emits_intros) simp_all

lemma emits_save_best_notDDI: "emits notDDI (save_best_model E t b gs)"
  unfolding save_best_model_def by (intro emits_intros) simp_all

lemma emits_epoch_loop_notDDI: "emits notDDI (epoch_loop E c a amp l eps gs best)"
proof (induction eps arbitrary: gs best)
  case Nil
  then show ?case by (simp add: emits_ret)
next
  case (Cons ep eps)
  show ?case
    unfolding epoch_loop.simps
    by (intro emits_intros emits_train_notDDI emits_evaluate_notDDI emits_save_best_notDDI Cons)
      simp_all
qed

lemma emits_main_rest_notDDI:
  "emits notDDI (thenM (setup_loader E c False) (
     bindM (setup_loader E c True) (\<lambda>eval_data_loader.
     epoch_loop E c a amp eval_data_loader (py_range (epochs c)) restore_step PInf)))"
  by (intro emits_intros emits_setup_loader emits_epoch_loop_notDDI) simp_all

lemma emits_model_load_dep [emits_intros]: "emits P (\<lambda>s. model_load_state_dict (f s) s)"
  by (simp add: emits_def model_load_state_dict_def)

lemma emits_main_init:
  "emits (\<lambda>ev. \<not> is_SetDDI ev \<and> ev \<noteq> OptimizerStep) (main_init E c a)"
  unfolding main_init_def create_model_def restore_def restore_model_def create_scheduler_def
  by (intro emits_intros) simp_all

subsection \<open>Periodic checkpoints\<close>

lemma emits_train_step_rank:
  assumes "rank a \<noteq> 0"
  shows "emits (\<lambda>ev. \<forall>n. ev \<noteq> WriteCheckpoint (Periodic n)) (train_step E c a amp b gs)"
  unfolding train_step_def Let_def save_checkpoint_def
  by (intro emits_intros) (simp_all add: assms)

lemma emits_train_steps_rank:
  assumes "rank a \<noteq> 0"
  shows "emits notPeriodic (train_steps E c a amp bs gs)"
  by (induction bs arbitrary: gs)
    (simp_all add: emits_ret emits_bind emits_train_step_rank[OF assms])

lemma emits_epoch_loop_rank:
  assumes "rank a \<noteq> 0"
  shows "emits notPeriodic (epoch_loop E c a amp l eps gs best)"
proof (induction eps arbitrary: gs best)
  case Nil
  then show ?case by (simp add: emits_ret)
next
  case (Cons ep eps)
  show ?case
    unfolding epoch_loop.simps train_def evaluate_def eval_step_def test_sentences_loop_def
      test_sentence_def synthesize_sentence_def save_best_model_def
    by (intro emits_intros emits_train_steps_rank[OF assms] Cons) simp_all
qed

lemma periodic_checkpoints_rank_0_only:
  assumes "rank a \<noteq> 0"
  shows "emits (\<lambda>ev. \<forall>n. ev \<noteq> WriteCheckpoint (Periodic n)) (main E c a)"
  unfolding main_def main_init_def create_model_def restore_def restore_model_def
    create_scheduler_def data_depended_init_def setup_loader_def
  by (intro emits_intros emits_epoch_loop_rank[OF assms]) simp_all

subsection \<open>Unfolding a run on a concrete input\<close>

lemmas run_defs = bindM_def thenM_def retM_def raiseM_def whenM_def tryM_def call_def calls_def
  emit_def py_mod_is_0_def py_getitem_def

lemmas example_defs = example_config_def example_args_def example_checkpoint_def quiet_env_def
  start_state_def nan_env_def failing_synthesis_env_def interrupted_env_def failing_env_def
  distributed_env_def distributed_config_def rank1_args_def
  exiting_env_def failing_startup_env_def interrupted_synthesis_env_def

lemmas fun_defs = main_def main_init_def create_model_def restore_def restore_model_def
  create_scheduler_def data_depended_init_def setup_loader_def train_def train_step_def
  save_checkpoint_def evaluate_def eval_step_def save_best_model_def py_range_def
  test_sentences_loop_def test_sentence_def synthesize_sentence_def enumerate_from0_def
  set_initial_lr_def model_load_state_dict_def optimizer_load_state_dict_def set_init_dict_def
  strict_match_def copy_matching_def startup_def read_config_def prepare_output_def
  continue_training_def os_path_join_def script_def run_main_def Let_def

section \<open>The training script: the claims\<close>

subsection \<open>data_depended_init runs exactly when the restored step is 0\<close>

text \<open>
  C1. In \<open>main\<close>, \<open>data_depended_init\<close> is executed if and only if the restored global
  step is 0. Let \<open>main_init\<close> (\<open>main\<close> up to \<open>global_step = args.restore_step\<close>) return
  the step \<open>restore_step\<close> in the state \<open>s1\<close>. Then the events of \<open>main\<close> after \<open>s1\<close> are
  \<open>D @ L\<close>, where \<open>D\<close> is what \<open>if global_step == 0: data_depended_init(...)\<close> appends:
  \<^item> nothing when \<open>restore_step\<close> is not 0;
  \<^item> when \<open>restore_step\<close> is 0, the events of one call of \<open>data_depended_init\<close>: they
    start with \<open>set_ddi(True)\<close>, which does not occur again, they are a prefix of
    \<open>ddi_events\<close> (\<open>set_ddi(True)\<close>, the set-up of the loader, \<open>model.train()\<close>,
    \<open>format_data\<close> and one forward pass without gradients on the first batch the loader
    yields, \<open>set_ddi(False)\<close>), and all of \<open>ddi_events\<close> when the call returns.
  No optimizer step is taken up to the end of \<open>D\<close>, and \<open>set_ddi\<close> is called neither
  before \<open>D\<close> nor after it, in the loaders and the epochs \<open>L\<close>.
\<close>

theorem data_depended_init_iff_fresh:
  assumes "main_init E c a s = (Inr (amp, scheduler, restore_step), s1)"
  shows "\<exists>D L. trace (snd (main E c a s)) = trace s1 @ D @ L
     \<and> list_all (\<lambda>ev. \<not> is_SetDDI ev \<and> ev \<noteq> OptimizerStep) (drop (length (trace s)) (trace s1))
     \<and> (restore_step \<noteq> 0 \<longrightarrow> D = [])
     \<and> (restore_step = 0 \<longrightarrow>
           D = new_events (data_depended_init E c) s1
         \<and> (\<exists>D'. D = SetDDI True # D' \<and>
                  list_all (\<lambda>ev. ev \<noteq> SetDDI True \<and> ev \<noteq> OptimizerStep) D')
         \<and> (\<exists>rest. ddi_events E c = D @ rest)
         \<and> (\<not> isl (fst (data_depended_init E c s1)) \<longrightarrow> D = ddi_events E c))
     \<and> list_all (\<lambda>ev. \<not> is_SetDDI ev) L"
proof -
  let ?rest = "thenM (setup_loader E c False) (
     bindM (setup_loader E c True) (\<lambda>eval_data_loader.
     epoch_loop E c a amp eval_data_loader (py_range (epochs c)) restore_step PInf))"
  have m: "main E c a s = thenM (whenM (restore_step = 0) (data_depended_init E c)) ?rest s1"
    using assms by (simp add: main_def bindM_def)
  from emitsD[OF emits_main_init, of E c a s] assms obtain evs0 where
    "trace s1 = trace s @ evs0" "list_all (\<lambda>ev. \<not> is_SetDDI ev \<and> ev \<noteq> OptimizerStep) evs0"
    by auto
  then have init: "list_all (\<lambda>ev. \<not> is_SetDDI ev \<and> ev \<noteq> OptimizerStep)
      (drop (length (trace s)) (trace s1))"
    by simp
  show ?thesis
  proof (cases "restore_step = 0")
    case False
    from emitsD[OF emits_main_rest_notDDI, of E c a amp restore_step s1] obtain L where
      L: "trace (snd (?rest s1)) = trace s1 @ L" "list_all (\<lambda>ev. \<not> is_SetDDI ev) L" by auto
    have "main E c a s = ?rest s1"
      using m False by (simp add: whenM_def thenM_def bindM_def retM_def)
    with L init False show ?thesis
      by - (rule exI[of _ "[]"], rule exI[of _ L], simp)
  next
    case True
    obtain r s2 where d: "data_depended_init E c s1 = (r, s2)" by force
    from ddi_starts[of E c s1] d obtain D' where
      D': "trace s2 = trace s1 @ SetDDI True # D'"
          "list_all (\<lambda>ev. ev \<noteq> SetDDI True \<and> ev \<noteq> OptimizerStep) D'" by auto
    from runsD[OF runs_data_depended_init, of E c s1] d obtain evs rest where
      R: "trace s2 = trace s1 @ evs" "ddi_events E c = evs @ rest" "isl r \<or> rest = []" by auto
    have evs: "evs = SetDDI True # D'" using D'(1) R(1) by simp
    have ne: "new_events (data_depended_init E c) s1 = SetDDI True # D'"
      using d D'(1) by (simp add: new_events_def)
    let ?D = "new_events (data_depended_init E c) s1"
    have tr: "trace s2 = trace s1 @ ?D"
      using ne D'(1) by simp
    have f1: "\<exists>D''. ?D = SetDDI True # D'' \<and>
                  list_all (\<lambda>ev. ev \<noteq> SetDDI True \<and> ev \<noteq> OptimizerStep) D''"
      using ne D'(2) by simp
    have f2: "\<exists>rest. ddi_events E c = ?D @ rest"
      using ne R(2) evs by auto
    have f3: "\<not> isl (fst (data_depended_init E c s1)) \<longrightarrow> ?D = ddi_events E c"
      using ne R(2,3) evs d by auto
    show ?thesis
    proof (cases r)
      case (Inl e)
      have "main E c a s = (Inl e, s2)"
        using m True d Inl by (simp add: whenM_def thenM_def bindM_def)
      with tr init True f1 f2 f3 show ?thesis
        by - (rule exI[of _ ?D], rule exI[of _ "[]"], simp)
    next
      case (Inr u)
      from emitsD[OF emits_main_rest_notDDI, of E c a amp restore_step s2] obtain L where
        L: "trace (snd (?rest s2)) = trace s2 @ L" "list_all (\<lambda>ev. \<not> is_SetDDI ev) L" by auto
      have "main E c a s = ?rest s2"
        using m True d Inr by (simp add: whenM_def thenM_def bindM_def)
      with L tr init True f1 f2 f3 show ?thesis
        by - (rule exI[of _ ?D], rule exI[of _ L], simp)
    qed
  qed
qed

text \<open>
  A fresh run, whose step is 0, and a run restored from a checkpoint of step 5.
\<close>

theorem data_depended_init_iff_fresh_witness:
  "main_init quiet_env example_config example_args start_state =
     (Inr (False, None, 0),
      start_state\<lparr>trace := [Call ''AudioProcessor'', Call ''load_meta_data'',
        Call ''parse_speakers'', Call ''setup_model'', Call ''RAdam'',
        Call ''GlowTTSLoss'', Call ''count_parameters'']\<rparr>)
   \<and> (\<exists>L. trace (snd (main quiet_env example_config example_args start_state)) =
         [Call ''AudioProcessor'', Call ''load_meta_data'',
          Call ''parse_speakers'', Call ''setup_model'', Call ''RAdam'',
          Call ''GlowTTSLoss'', Call ''count_parameters''] @
         [SetDDI True, Call ''MyDataset'', Call ''DataLoader'', Call ''model.train'',
          FormatData (Batch 0), ModelForward False (Batch 0), SetDDI False] @ L
         \<and> list_all (\<lambda>ev. \<not> is_SetDDI ev) L)
   \<and> main_init quiet_env example_config (example_args\<lparr>restore_path := ''best_model.pth.tar''\<rparr>) start_state =
     (Inr (False, None, 5),
      \<lparr>trace = [Call ''AudioProcessor'', Call ''load_meta_data'',
        Call ''parse_speakers'', Call ''setup_model'', Call ''RAdam'',
        Call ''GlowTTSLoss'', TorchLoad ''best_model.pth.tar'', Call ''count_parameters''],
       model = [(''w'', [2], [1, 1]), (''b'', [1], [0])],
       optimizer = \<lparr>opt_state = [(0, [1])],
          param_groups = [\<lparr>group_lr = 1, group_initial_lr = Some 1, n_params = 2\<rparr>]\<rparr>\<rparr>)
   \<and> (\<exists>L. trace (snd (main quiet_env example_config
                  (example_args\<lparr>restore_path := ''best_model.pth.tar''\<rparr>) start_state)) =
         [Call ''AudioProcessor'', Call ''load_meta_data'',
          Call ''parse_speakers'', Call ''setup_model'', Call ''RAdam'',
          Call ''GlowTTSLoss'', TorchLoad ''best_model.pth.tar'', Call ''count_parameters''] @ L
         \<and> list_all (\<lambda>ev. \<not> is_SetDDI ev) L)"
proof -
  let ?s1 = "start_state\<lparr>trace := [Call ''AudioProcessor'', Call ''load_meta_data'',
        Call ''parse_speakers'', Call ''setup_model'', Call ''RAdam'',
        Call ''GlowTTSLoss'', Call ''count_parameters'']\<rparr>"
  let ?a2 = "example_args\<lparr>restore_path := ''best_model.pth.tar''\<rparr>"
  let ?s2 = "\<lparr>trace = [Call ''AudioProcessor'', Call ''load_meta_data'',
        Call ''parse_speakers'', Call ''setup_model'', Call ''RAdam'',
        Call ''GlowTTSLoss'', TorchLoad ''best_model.pth.tar'', Call ''count_parameters''],
       model = [(''w'', [2], [1, 1]), (''b'', [1], [0])],
       optimizer = \<lparr>opt_state = [(0, [1])],
          param_groups = [\<lparr>group_lr = 1, group_initial_lr = Some 1, n_params = 2\<rparr>]\<rparr>\<rparr>"
  have i1: "main_init quiet_env example_config example_args start_state = (Inr (False, None, 0), ?s1)"
    by (simp add: fun_defs run_defs example_defs)
  have i2: "main_init quiet_env example_config ?a2 start_state = (Inr (False, None, 5), ?s2)"
    by (simp add: fun_defs run_defs example_defs)
  have d: "\<not> isl (fst (data_depended_init quiet_env example_config ?s1))"
    by (simp add: fun_defs run_defs example_defs)
  have e: "ddi_events quiet_env example_config =
      [SetDDI True, Call ''MyDataset'', Call ''DataLoader'', Call ''model.train'',
          FormatData (Batch 0), ModelForward False (Batch 0), SetDDI False]"
    by (simp add: ddi_events_def loader_events_def example_defs)
  have t1: "trace ?s1 = [Call ''AudioProcessor'', Call ''load_meta_data'',
        Call ''parse_speakers'', Call ''setup_model'', Call ''RAdam'',
        Call ''GlowTTSLoss'', Call ''count_parameters'']"
    by (simp add: example_defs)
  from data_depended_init_iff_fresh[OF i1] d e t1 have c1:
    "\<exists>L. trace (snd (main quiet_env example_config example_args start_state)) =
         [Call ''AudioProcessor'', Call ''load_meta_data'',
          Call ''parse_speakers'', Call ''setup_model'', Call ''RAdam'',
          Call ''GlowTTSLoss'', Call ''count_parameters''] @
         [SetDDI True, Call ''MyDataset'', Call ''DataLoader'', Call ''model.train'',
          FormatData (Batch 0), ModelForward False (Batch 0), SetDDI False] @ L
         \<and> list_all (\<lambda>ev. \<not> is_SetDDI ev) L"
    by auto
  from data_depended_init_iff_fresh[OF i2] have c2:
    "\<exists>L. trace (snd (main quiet_env example_config ?a2 start_state)) =
         [Call ''AudioProcessor'', Call ''load_meta_data'',
          Call ''parse_speakers'', Call ''setup_model'', Call ''RAdam'',
          Call ''GlowTTSLoss'', TorchLoad ''best_model.pth.tar'', Call ''count_parameters''] @ L
         \<and> list_all (\<lambda>ev. \<not> is_SetDDI ev) L"
    by auto
  show ?thesis
    using i1 i2 c1 c2 by blast
qed

subsection \<open>No check of the loss before optimizer.step()\<close>

text \<open>
  C2 says that a training step with a non-finite loss aborts before \<open>optimizer.step()\<close>.
  With a criterion that returns a NaN loss, the epoch of \<open>train\<close> instead runs to its end
  without raising, and \<open>optimizer.step()\<close> is called after \<open>loss.backward()\<close>.
\<close>

theorem nan_loss_counterexample:
  "trace (snd (train nan_env example_config example_args False 0 0 start_state)) =
     [Call ''model.train'', Call ''c_logger.print_train_start'',
      FormatData (Batch 0), Call ''optimizer.zero_grad'',
      ModelForward True (Batch 0), Criterion 1, Backward NaN,
      Call ''check_update'', OptimizerStep, Call ''alignment_diagonal_score'',
      Call ''keep_avg.update_values'', Call ''c_logger.print_train_epoch_end'',
      Call ''tb_logger.tb_train_epoch_stats'']
   \<and> \<not> isl (fst (train nan_env example_config example_args False 0 0 start_state))
   \<and> \<not> is_finite (loss (criterion_out nan_env []))"
  by (simp add: fun_defs run_defs example_defs)

text \<open>
  C2, amended. \<open>train\<close> has no check of the loss: in every training step in which the
  calls of the collaborators return, \<open>optimizer.step()\<close> is called right after
  \<open>loss.backward()\<close> and \<open>check_update\<close> (whose skip flag is discarded), whatever the loss
  that was passed to \<open>backward\<close>, also a NaN or an infinite one.
\<close>

theorem optimizer_step_unconditional:
  assumes "\<forall>h ev. raises E h ev = None"
  shows "\<exists>evs. trace (snd (train_step E c a amp data global_step s)) =
     trace s @ [FormatData data] @
     (if noam_schedule c then [Call ''scheduler.step''] else []) @
     [Call ''optimizer.zero_grad'', ModelForward True data, Criterion (global_step + 1)] @
     (if amp then [Call ''amp.scale_loss''] else []) @
     [Backward (loss (criterion_out E
        (trace s @ [FormatData data] @
         (if noam_schedule c then [Call ''scheduler.step''] else []) @
         [Call ''optimizer.zero_grad'', ModelForward True data, Criterion (global_step + 1)])))] @
     (if amp then [Call ''amp.master_params''] else []) @
     [Call ''check_update'', OptimizerStep] @ evs"
proof -
  let ?rest = "thenM (call E (Call ''alignment_diagonal_score'')) (
      thenM (whenM (num_gpus E > 1)
               (calls E [Call ''reduce_tensor'', Call ''reduce_tensor'', Call ''reduce_tensor''])) (
      thenM (call E (Call ''keep_avg.update_values'')) (
      thenM (bindM (py_mod_is_0 (global_step + 1) (print_step c)) (\<lambda>z.
               whenM z (call E (Call ''c_logger.print_train_step'')))) (
      thenM (whenM (rank a = 0) (
               thenM (bindM (py_mod_is_0 (global_step + 1) (tb_plot_step c)) (\<lambda>z.
                        whenM z (call E (Call ''tb_logger.tb_train_iter_stats'')))) (
               bindM (py_mod_is_0 (global_step + 1) (save_step c)) (\<lambda>z.
                 whenM z (
                   thenM (whenM (checkpoint c) (
                            thenM (whenM amp (call E (Call ''amp.state_dict'')))
                                  (save_checkpoint E (global_step + 1)))) (
                   thenM (whenM (\<not> use_speaker_embedding c) (raiseM TypeError)) (
                   calls E [Call ''model.inference'', Call ''plot_spectrogram'',
                            Call ''plot_spectrogram'', Call ''plot_alignment'',
                            Call ''tb_logger.tb_train_figures'', Call ''ap.inv_melspectrogram'',
                            Call ''tb_logger.tb_train_audios''])))))))
      (retM (global_step + 1))))))"
  let ?pre = "trace s @ [FormatData data] @
     (if noam_schedule c then [Call ''scheduler.step''] else []) @
     [Call ''optimizer.zero_grad'', ModelForward True data, Criterion (global_step + 1)]"
  let ?mid = "?pre @ (if amp then [Call ''amp.scale_loss''] else []) @
     [Backward (loss (criterion_out E ?pre))] @
     (if amp then [Call ''amp.master_params''] else []) @
     [Call ''check_update'', OptimizerStep]"
  have q: "call E ev = (\<lambda>s. (Inr (), s\<lparr>trace := trace s @ [ev]\<rparr>))" for ev
    by (rule call_quiet[OF assms])
  have "train_step E c a amp data global_step s = ?rest (s\<lparr>trace := ?mid\<rparr>)"
    unfolding train_step_def Let_def
    by (simp add: q thenM_step whenM_def retM_def bindM_def thenM_def[of "\<lambda>s. (Inr (), s)"])
  moreover from emitsD[OF emits_train_rest, of E "global_step + 1" c a amp "s\<lparr>trace := ?mid\<rparr>"]
  obtain evs where "trace (snd (?rest (s\<lparr>trace := ?mid\<rparr>))) = ?mid @ evs"
    by auto
  ultimately show ?thesis
    by auto
qed

text \<open>
  The training step on the NaN loss.
\<close>

theorem optimizer_step_unconditional_witness:
  "(\<forall>h ev. raises nan_env h ev = None) \<and>
   (\<exists>evs. trace (snd (train_step nan_env example_config example_args False (Batch 0) 0 start_state)) =
      [FormatData (Batch 0), Call ''optimizer.zero_grad'', ModelForward True (Batch 0),
       Criterion 1, Backward NaN, Call ''check_update'', OptimizerStep] @ evs)"
proof -
  have h: "\<forall>h ev. raises nan_env h ev = None"
    by (simp add: example_defs)
  show ?thesis
    using optimizer_step_unconditional[OF h, of example_config example_args False "Batch 0" 0 start_state] h
    by (simp add: example_defs)
qed

subsection \<open>Checkpoints and the rank of the process\<close>

text \<open>
  C3. In distributed mode every write of a checkpoint is to be made by the process of
  rank 0 only. The periodic checkpoint of \<open>train\<close> is under \<open>if args.rank == 0\<close>
  (\<open>periodic_checkpoints_rank_0_only\<close>), but the call of \<open>save_best_model\<close> at the end of
  each epoch of \<open>main\<close> is under no such test: in a run of two processes, the process of
  rank 1 completes \<open>main\<close>, and its last event is the write of the best-loss checkpoint.
\<close>

theorem best_model_written_by_rank_1:
  "rank rank1_args = 1 \<and> num_gpus distributed_env = 2
   \<and> fst (main distributed_env distributed_config rank1_args start_state) = Inr ()
   \<and> last (trace (snd (main distributed_env distributed_config rank1_args start_state))) =
       WriteCheckpoint (Best 1)"
  by (simp add: fun_defs run_defs example_defs)

subsection \<open>The partial load of the restore\<close>

text \<open>
  C4. The \<open>try\<close> of the restore never raises, whatever the checkpoint: when the full
  load fails, the handler loads the partial dict. From a model state dict with distinct
  names, the model keeps its parameter names, and every parameter holds the tensor of the
  checkpoint when the checkpoint has this name with the same shape, and its own value
  otherwise. When the calls of the collaborators return, the whole restore block returns
  the step of the checkpoint, so that \<open>main\<close> goes on, with the model so loaded.
\<close>

theorem partial_restore_not_fatal:
  assumes "distinct (map fst (model s))"
  shows "(\<exists>s'. restore_model c ckpt s = (Inr (), s')
           \<and> trace s' = trace s
           \<and> map fst (model s') = map fst (model s)
           \<and> (\<forall>(k, t) \<in> set (model s).
                 map_of (model s') k =
                   Some (case map_of (ck_model ckpt) k of
                           Some t' \<Rightarrow> if fst t' = fst t then t' else t
                         | None \<Rightarrow> t)))
     \<and> (restore_path a \<noteq> [] \<and> (\<forall>h ev. raises E h ev = None) \<longrightarrow>
          (\<exists>s'. restore E c a amp s = (Inr (ck_step (torch_load E (restore_path a))), s')
             \<and> model s' = copy_matching (model s) (ck_model (torch_load E (restore_path a)))))"
proof (intro conjI impI)
  show "\<exists>s'. restore_model c ckpt s = (Inr (), s')
           \<and> trace s' = trace s
           \<and> map fst (model s') = map fst (model s)
           \<and> (\<forall>(k, t) \<in> set (model s).
                 map_of (model s') k =
                   Some (case map_of (ck_model ckpt) k of
                           Some t' \<Rightarrow> if fst t' = fst t then t' else t
                         | None \<Rightarrow> t))"
    using restore_model_result[OF assms, of c ckpt] map_of_copy_matching[OF assms]
    by auto
next
  assume h: "restore_path a \<noteq> [] \<and> (\<forall>h ev. raises E h ev = None)"
  let ?s1 = "s\<lparr>trace := trace s @ [TorchLoad (restore_path a)]\<rparr>"
  have d: "distinct (map fst (model ?s1))" using assms by simp
  show "\<exists>s'. restore E c a amp s = (Inr (ck_step (torch_load E (restore_path a))), s')
             \<and> model s' = copy_matching (model s) (ck_model (torch_load E (restore_path a)))"
    using h restore_model_result[OF d, of c "torch_load E (restore_path a)"]
    by (simp add: restore_def thenM_def bindM_def call_def whenM_def retM_def set_initial_lr_def)
qed

text \<open>
  A checkpoint with a parameter of another shape and a parameter the model does not have:
  the full load raises, \<open>w\<close> is copied, \<open>b\<close> keeps its initial value.
\<close>

theorem partial_restore_not_fatal_witness:
  "distinct (map fst (model start_state))
   \<and> isl (fst (model_load_state_dict (ck_model example_checkpoint) start_state))
   \<and> restore_model example_config example_checkpoint start_state =
       (Inr (), start_state\<lparr>model := [(''w'', [2], [1, 1]), (''b'', [1], [0])],
          optimizer := \<lparr>opt_state = [(0, [1])],
             param_groups = [\<lparr>group_lr = 1, group_initial_lr = None, n_params = 2\<rparr>]\<rparr>\<rparr>)
   \<and> map_of (ck_model example_checkpoint) ''old'' = Some ([1], [5])
   \<and> restore_path (example_args\<lparr>restore_path := ''best_model.pth.tar''\<rparr>) \<noteq> []
   \<and> (\<forall>h ev. raises quiet_env h ev = None)
   \<and> (\<exists>s'. restore quiet_env example_config
              (example_args\<lparr>restore_path := ''best_model.pth.tar''\<rparr>) False start_state =
              (Inr 5, s')
          \<and> model s' = [(''w'', [2], [1, 1]), (''b'', [1], [0])])"
  using partial_restore_not_fatal[of start_state example_config example_checkpoint
      "example_args\<lparr>restore_path := ''best_model.pth.tar''\<rparr>" quiet_env False]
  by (simp add: fun_defs run_defs example_defs)

subsection \<open>A failing test sentence\<close>



subsection \<open>Exit codes\<close>




subsection \<open>Continuing a run\<close>

text \<open>
  C8. With a non-empty \<open>--continue_path\<close>: when the folder has no \<open>*.pth.tar\<close> file, the
  script ends with the uncaught \<open>ValueError\<close> of \<open>max\<close>, before any other call.
  Otherwise \<open>config_path\<close> is replaced by \<open><continue_path>/config.json\<close>, whatever was
  given, \<open>restore_path\<close> is a file of the folder whose creation time is the greatest, the
  first call is the load of this configuration, and the arguments, the configuration and
  the output folder passed on to \<open>main\<close> are these.
\<close>

theorem continue_path_latest_checkpoint:
  assumes "continue_path a \<noteq> []"
  shows "(glob_files E (continue_path a @ ''/*.pth.tar'') = [] \<longrightarrow>
            script E a s = (Uncaught ValueError, s))
     \<and> (glob_files E (continue_path a @ ''/*.pth.tar'') \<noteq> [] \<longrightarrow>
         (\<exists>latest. latest \<in> set (glob_files E (continue_path a @ ''/*.pth.tar''))
            \<and> (\<forall>f \<in> set (glob_files E (continue_path a @ ''/*.pth.tar'')).
                  getctime E f \<le> getctime E latest)
            \<and> continue_training E a =
                 Inr (a\<lparr>config_path := Some (os_path_join (continue_path a) ''config.json''),
                        restore_path := latest\<rparr>)
            \<and> (\<exists>evs. trace (snd (startup E a s)) =
                   trace s @ LoadConfig (os_path_join (continue_path a) ''config.json'') # evs)
            \<and> (\<forall>a' c out s'. startup E a s = (Inr (a', c, out), s') \<longrightarrow>
                   restore_path a' = latest
                 \<and> c = load_config E (os_path_join (continue_path a) ''config.json'')
                 \<and> out = continue_path a)))"
proof (intro conjI impI)
  assume "glob_files E (continue_path a @ ''/*.pth.tar'') = []"
  then show "script E a s = (Uncaught ValueError, s)"
    using assms by (simp add: script_def startup_def continue_training_def)
next
  let ?files = "glob_files E (continue_path a @ ''/*.pth.tar'')"
  let ?p = "os_path_join (continue_path a) ''config.json''"
  assume ne: "?files \<noteq> []"
  from py_max_key_greatest[OF ne, of "getctime E"] obtain latest where
    mx: "py_max_key (getctime E) ?files = Inr latest" and mem: "latest \<in> set ?files"
    and top: "\<forall>f \<in> set ?files. getctime E f \<le> getctime E latest" by blast
  let ?a = "a\<lparr>config_path := Some ?p, restore_path := latest\<rparr>"
  have ct: "continue_training E a = Inr ?a"
    using assms mx by (simp add: continue_training_def)
  have st: "startup E a = bindM (thenM (call E (LoadConfig ?p)) (retM (load_config E ?p)))
              (\<lambda>c. bindM (prepare_output E ?a c) (\<lambda>OUT_PATH. retM (?a, c, OUT_PATH)))"
    by (simp add: startup_def ct read_config_def)
  have ev: "\<exists>evs. trace (snd (startup E a s)) = trace s @ LoadConfig ?p # evs"
    unfolding st
    by (rule call_then_first[where P="\<lambda>ev. True"]) (intro emits_intros emits_prepare_output)
  have res: "\<forall>a' c out s'. startup E a s = (Inr (a', c, out), s') \<longrightarrow>
                   restore_path a' = latest \<and> c = load_config E ?p \<and> out = continue_path a"
    unfolding st using assms
    by (auto simp add: bindM_def thenM_def retM_def call_def prepare_output_def
          split: option.splits sum.splits prod.splits if_splits)
  show "\<exists>latest. latest \<in> set ?files \<and> (\<forall>f \<in> set ?files. getctime E f \<le> getctime E latest)
            \<and> continue_training E a = Inr (a\<lparr>config_path := Some ?p, restore_path := latest\<rparr>)
            \<and> (\<exists>evs. trace (snd (startup E a s)) = trace s @ LoadConfig ?p # evs)
            \<and> (\<forall>a' c out s'. startup E a s = (Inr (a', c, out), s') \<longrightarrow>
                   restore_path a' = latest \<and> c = load_config E ?p \<and> out = continue_path a)"
    using mem top ct ev res by blast
qed

text \<open>
  A folder with two checkpoints, and an empty one.
\<close>

theorem continue_path_latest_checkpoint_witness:
  "continue_path (example_args\<lparr>continue_path := ''out''\<rparr>) \<noteq> []
   \<and> glob_files (quiet_env\<lparr>glob_files := (\<lambda>p. [])\<rparr>) ''out/*.pth.tar'' = []
   \<and> script (quiet_env\<lparr>glob_files := (\<lambda>p. [])\<rparr>) (example_args\<lparr>continue_path := ''out''\<rparr>)
        start_state = (Uncaught ValueError, start_state)
   \<and> glob_files quiet_env ''out/*.pth.tar'' = [''out/a.pth.tar'', ''out/b.pth.tar'']
   \<and> continue_training quiet_env (example_args\<lparr>continue_path := ''out''\<rparr>) =
       Inr (example_args\<lparr>continue_path := ''out'', config_path := Some ''out/config.json'',
                         restore_path := ''out/b.pth.tar''\<rparr>)
   \<and> (\<exists>a' s'. startup quiet_env (example_args\<lparr>continue_path := ''out''\<rparr>) start_state =
         (Inr (a', example_config, ''out''), s') \<and> restore_path a' = ''out/b.pth.tar''
         \<and> hd (trace s') = LoadConfig ''out/config.json'')"
proof -
  let ?a = "example_args\<lparr>continue_path := ''out''\<rparr>"
  let ?E0 = "quiet_env\<lparr>glob_files := (\<lambda>p. [])\<rparr>"
  have a: "continue_path ?a \<noteq> []"
    by simp
  have g0: "glob_files ?E0 (continue_path ?a @ ''/*.pth.tar'') = []"
    by simp
  have g1: "glob_files quiet_env (continue_path ?a @ ''/*.pth.tar'') =
      [''out/a.pth.tar'', ''out/b.pth.tar'']"
    by (simp add: example_defs)
  have c: "getctime quiet_env ''out/a.pth.tar'' = 1" "getctime quiet_env ''out/b.pth.tar'' = 2"
    by (simp_all add: example_defs)
  have l: "load_config quiet_env p = example_config" for p
    by (simp add: example_defs)
  have st: "\<exists>a' c out s'. startup quiet_env ?a start_state = (Inr (a', c, out), s')"
    by (simp add: fun_defs run_defs example_defs)
  from continue_path_latest_checkpoint[OF a, of ?E0 start_state] g0
  have 1: "script ?E0 ?a start_state = (Uncaught ValueError, start_state)"
    by simp
  from continue_path_latest_checkpoint[OF a, of quiet_env start_state] g1
  obtain latest where m: "latest \<in> {''out/a.pth.tar'', ''out/b.pth.tar''}"
    and gt: "\<forall>f \<in> {''out/a.pth.tar'', ''out/b.pth.tar''}. getctime quiet_env f \<le> getctime quiet_env latest"
    and ct: "continue_training quiet_env ?a =
       Inr (?a\<lparr>config_path := Some (os_path_join (continue_path ?a) ''config.json''),
              restore_path := latest\<rparr>)"
    and tr: "\<exists>evs. trace (snd (startup quiet_env ?a start_state)) =
         trace start_state @ LoadConfig (os_path_join (continue_path ?a) ''config.json'') # evs"
    and su: "\<forall>a' c out s'. startup quiet_env ?a start_state = (Inr (a', c, out), s') \<longrightarrow>
         restore_path a' = latest
         \<and> c = load_config quiet_env (os_path_join (continue_path ?a) ''config.json'')
         \<and> out = continue_path ?a"
    by auto
  from m gt c have latest: "latest = ''out/b.pth.tar''"
    by auto
  have j: "os_path_join (continue_path ?a) ''config.json'' = ''out/config.json''"
    by (simp add: os_path_join_def)
  from st obtain a' c' out' s' where s': "startup quiet_env ?a start_state = (Inr (a', c', out'), s')"
    by blast
  with su l latest have 3: "restore_path a' = ''out/b.pth.tar''" "c' = example_config" "out' = ''out''"
    by auto
  from tr s' j have 4: "hd (trace s') = LoadConfig ''out/config.json''"
    by (auto simp: example_defs)
  have 5: "continue_training quiet_env ?a =
       Inr (example_args\<lparr>continue_path := ''out'', config_path := Some ''out/config.json'',
                         restore_path := ''out/b.pth.tar''\<rparr>)"
    using ct latest j by simp
  have 6: "\<exists>a' s'. startup quiet_env ?a start_state =
         (Inr (a', example_config, ''out''), s') \<and> restore_path a' = ''out/b.pth.tar''
         \<and> hd (trace s') = LoadConfig ''out/config.json''"
    using s' 3 4 by blast
  from a g0 g1 1 5 6 show ?thesis
    by simp
qed

subsection \<open>The optimizer and the scheduler on restore\<close>

text \<open>
  C9. On a restore (\<open>--restore_path\<close> given) after which \<open>main\<close> reaches
  \<open>global_step = args.restore_step\<close>: the step is the step of the checkpoint; with
  \<open>noam_schedule\<close> the scheduler is \<open>NoamLR\<close> with \<open>last_epoch\<close> the restored step minus
  one and the optimizer state is the fresh one; without \<open>noam_schedule\<close> there is no
  scheduler and the optimizer state is the one of the checkpoint (when its parameter
  groups fit, which \<open>load_state_dict\<close> requires); in every case the \<open>initial_lr\<close> of each
  parameter group is the configured learning rate.
\<close>

theorem restore_optimizer_and_scheduler:
  assumes "restore_path a \<noteq> []"
    and "main_init E c a s = (Inr (amp, scheduler, restore_step), s')"
  shows "restore_step = ck_step (torch_load E (restore_path a))
     \<and> scheduler = (if noam_schedule c then Some (restore_step - 1) else None)
     \<and> (noam_schedule c \<longrightarrow>
          NoamLR (restore_step - 1) \<in> set (trace s') \<and>
          opt_state (optimizer s') = opt_state (optimizer s))
     \<and> (\<not> noam_schedule c \<and>
          map n_params (param_groups (ck_optimizer (torch_load E (restore_path a)))) =
          map n_params (param_groups (optimizer s)) \<longrightarrow>
          opt_state (optimizer s') = opt_state (ck_optimizer (torch_load E (restore_path a))))
     \<and> (\<forall>g \<in> set (param_groups (optimizer s')). group_initial_lr g = Some (lr c))"
proof -
  from assms(2) obtain amp1 s1 where 1: "create_model E c s = (Inr amp1, s1)"
    and r1: "bindM (restore E c a amp1) (\<lambda>restore_step.
       bindM (create_scheduler E c restore_step) (\<lambda>scheduler.
       retM (amp1, scheduler, restore_step))) s1 = (Inr (amp, scheduler, restore_step), s')"
    unfolding main_init_def by (rule bindM_Inr)
  from r1 obtain step2 s2 where 2: "restore E c a amp1 s1 = (Inr step2, s2)"
    and r2: "bindM (create_scheduler E c step2) (\<lambda>scheduler.
       retM (amp1, scheduler, step2)) s2 = (Inr (amp, scheduler, restore_step), s')"
    by (rule bindM_Inr)
  from r2 obtain sch3 s3 where 3: "create_scheduler E c step2 s2 = (Inr sch3, s3)"
    and r3: "retM (amp1, sch3, step2) s3 = (Inr (amp, scheduler, restore_step), s')"
    by (rule bindM_Inr)
  from r3 have eq: "sch3 = scheduler" "step2 = restore_step" "s3 = s'"
    by (simp_all add: retM_def)
  have o1: "optimizer s1 = optimizer s"
    using keepsD[OF keeps_create_model 1] by simp
  have o3: "optimizer s' = optimizer s2"
    using keepsD[OF keeps_create_scheduler 3] eq by simp
  note R = restore_Inr[OF assms(1) 2]
  note S = create_scheduler_Inr[OF 3]
  show ?thesis
    using R S eq o1 o3 by simp
qed

text \<open>
  The restore without and with \<open>noam_schedule\<close>.
\<close>

theorem restore_optimizer_and_scheduler_witness:
  "restore_path (example_args\<lparr>restore_path := ''best_model.pth.tar''\<rparr>) \<noteq> []
   \<and> (\<exists>s'. main_init quiet_env example_config
              (example_args\<lparr>restore_path := ''best_model.pth.tar''\<rparr>) start_state =
              (Inr (False, None, 5), s')
          \<and> opt_state (optimizer s') = [(0, [1])]
          \<and> map group_initial_lr (param_groups (optimizer s')) = [Some 1])
   \<and> (\<exists>s'. main_init quiet_env (example_config\<lparr>noam_schedule := True\<rparr>)
              (example_args\<lparr>restore_path := ''best_model.pth.tar''\<rparr>) start_state =
              (Inr (False, Some 4, 5), s')
          \<and> NoamLR 4 \<in> set (trace s')
          \<and> opt_state (optimizer s') = []
          \<and> map group_initial_lr (param_groups (optimizer s')) = [Some 1])"
proof -
  let ?a = "example_args\<lparr>restore_path := ''best_model.pth.tar''\<rparr>"
  let ?c = "example_config\<lparr>noam_schedule := True\<rparr>"
  have a: "restore_path ?a \<noteq> []"
    by simp
  have 1: "\<exists>s'. main_init quiet_env example_config ?a start_state = (Inr (False, None, 5), s')
      \<and> length (param_groups (optimizer s')) = 1"
    by (simp add: fun_defs run_defs example_defs)
  have 2: "\<exists>s'. main_init quiet_env ?c ?a start_state = (Inr (False, Some 4, 5), s')
      \<and> length (param_groups (optimizer s')) = 1"
    by (simp add: fun_defs run_defs example_defs)
  have e: "\<not> noam_schedule example_config" "noam_schedule ?c" "lr example_config = 1" "lr ?c = 1"
    "opt_state (ck_optimizer (torch_load quiet_env p)) = [(0, [1])]"
    "map n_params (param_groups (ck_optimizer (torch_load quiet_env p))) =
     map n_params (param_groups (optimizer start_state))"
    "opt_state (optimizer start_state) = []" for p
    by (simp_all add: example_defs)
  have g: "length gs = 1 \<Longrightarrow> \<forall>g \<in> set gs. group_initial_lr g = Some v
      \<Longrightarrow> map group_initial_lr gs = [Some v]" for gs :: "param_group list" and v
    by (cases gs) auto
  from 1 obtain s1 where m1: "main_init quiet_env example_config ?a start_state =
      (Inr (False, None, 5), s1)" and l1: "length (param_groups (optimizer s1)) = 1"
    by blast
  from 2 obtain s2 where m2: "main_init quiet_env ?c ?a start_state =
      (Inr (False, Some 4, 5), s2)" and l2: "length (param_groups (optimizer s2)) = 1"
    by blast
  from restore_optimizer_and_scheduler[OF a m1] e
  have r1: "opt_state (optimizer s1) = [(0, [1])]"
    "\<forall>g \<in> set (param_groups (optimizer s1)). group_initial_lr g = Some 1"
    by simp_all
  from restore_optimizer_and_scheduler[OF a m2] e
  have r2: "NoamLR 4 \<in> set (trace s2)" "opt_state (optimizer s2) = []"
    "\<forall>g \<in> set (param_groups (optimizer s2)). group_initial_lr g = Some 1"
    by simp_all
  have c1: "\<exists>s'. main_init quiet_env example_config ?a start_state = (Inr (False, None, 5), s')
          \<and> opt_state (optimizer s') = [(0, [1])]
          \<and> map group_initial_lr (param_groups (optimizer s')) = [Some 1]"
    by (rule exI[of _ s1]) (intro conjI m1 r1(1) g[OF l1 r1(2)])
  have c2: "\<exists>s'. main_init quiet_env ?c ?a start_state = (Inr (False, Some 4, 5), s')
          \<and> NoamLR 4 \<in> set (trace s')
          \<and> opt_state (optimizer s') = []
          \<and> map group_initial_lr (param_groups (optimizer s')) = [Some 1]"
    by (rule exI[of _ s2]) (intro conjI m2 r2(1,2) g[OF l2 r2(3)])
  show ?thesis
    by (intro conjI a c1 c2)
qed

end
